theory Spec2Isabelle
  imports Complex_Main
begin

section \<open>Vectors, matrices and the objective contract\<close>

text \<open>
  The optimizers work on numpy arrays of floats. The embedding idealises floats as
  \<^typ>\<open>real\<close> and one-dimensional arrays as \<^typ>\<open>real list\<close>; a matrix is the list of
  its rows. Python's unbounded integers (iteration counters, budgets) are \<^typ>\<open>int\<close>.
\<close>

type_synonym vec = "real list"
type_synonym mat = "real list list"

definition vneg :: "vec \<Rightarrow> vec" where
  "vneg g = map uminus g"

definition vadd :: "vec \<Rightarrow> vec \<Rightarrow> vec" where
  "vadd x y = map2 (+) x y"

definition vsub :: "vec \<Rightarrow> vec \<Rightarrow> vec" where
  "vsub x y = map2 (-) x y"

definition vmul :: "vec \<Rightarrow> vec \<Rightarrow> vec" where
  "vmul x y = map2 (*) x y"

definition smul :: "real \<Rightarrow> vec \<Rightarrow> vec" where
  "smul a d = map ((*) a) d"

definition dot :: "vec \<Rightarrow> vec \<Rightarrow> real" where
  "dot x y = sum_list (map2 (*) x y)"

text \<open>\<^verbatim>\<open>np.linalg.norm\<close> of a vector: the Euclidean norm.\<close>

definition norm2 :: "vec \<Rightarrow> real" where
  "norm2 x = sqrt (dot x x)"

text \<open>\<^verbatim>\<open>Q.dot(x)\<close>: matrix times vector.\<close>

definition mat_vec :: "mat \<Rightarrow> vec \<Rightarrow> vec" where
  "mat_vec Q x = map (\<lambda>row. dot row x) Q"

text \<open>\<^verbatim>\<open>d.T.dot(Q)\<close>: row vector times matrix, the sum of the rows of \<open>Q\<close> weighted by \<open>d\<close>.\<close>

fun vec_mat :: "vec \<Rightarrow> mat \<Rightarrow> vec" where
  "vec_mat (di # d) [row] = smul di row"
| "vec_mat (di # d) (row # Q) = vadd (smul di row) (vec_mat d Q)"
| "vec_mat _ _ = []"

text \<open>The terminal statuses returned by \<^verbatim>\<open>minimize\<close> (strings in the source).\<close>

datatype status = Optimal | Unbounded | Stopped | Error

text \<open>
  The objective capability used by the algorithms: \<^verbatim>\<open>f.jacobian(x)\<close> and, for quadratic
  objectives, the constant \<^verbatim>\<open>f.hessian()\<close>. The function value \<^verbatim>\<open>f.function(x)\<close> is
  carried as well; the deterministic loops use it only for reporting and as an input of
  the line search.
\<close>

record objective =
  function_val :: "vec \<Rightarrow> real"
  jacobian :: "vec \<Rightarrow> vec"
  hessian :: mat

text \<open>
  Modelled from the spec: the quadratic test objectives (module
  \<^verbatim>\<open>optimization.test_functions\<close>) are not part of the sources at hand. The spec and
  the docstring of \<^verbatim>\<open>SteepestGradientDescentQuadratic\<close> give
  \<open>f(x) = 1/2 x\<^sup>T Q x - q\<^sup>T x\<close>, hence the gradient \<open>Q x - q\<close> and the Hessian \<open>Q\<close>.
\<close>

definition quad :: "mat \<Rightarrow> vec \<Rightarrow> objective" where
  "quad Q q = \<lparr> function_val = (\<lambda>x. dot x (mat_vec Q x) / 2 - dot q x),
               jacobian = (\<lambda>x. vsub (mat_vec Q x) q),
               hessian = Q \<rparr>"

section \<open>Optimizer objects\<close>

text \<open>
  Errors raised by the Python code, as values. \<^verbatim>\<open>UnboundLocalError\<close> is what Python
  raises when a local variable (\<^verbatim>\<open>status\<close>, \<^verbatim>\<open>beta\<close>, \<^verbatim>\<open>past_g\<close>) is read before any
  assignment to it.
\<close>

datatype error = ValueError string | UnboundLocalError | ZeroDivisionError

text \<open>
  A constructor argument that \<^verbatim>\<open>np.isscalar\<close> (and \<^verbatim>\<open>np.isrealobj\<close>) inspects: either a
  real scalar or something else (an array, a list, \<^verbatim>\<open>None\<close>).
\<close>

datatype 'a pyval = Scalar 'a | NonScalar

text \<open>
  The base classes \<^verbatim>\<open>Optimizer\<close>, \<^verbatim>\<open>LineSearchOptimizer\<close> and \<^verbatim>\<open>StochasticOptimizer\<close> are
  not among the sources. The records below hold the attributes that the methods at hand
  read and write on \<^verbatim>\<open>self\<close>; the initial values that the base constructors would give
  (\<^verbatim>\<open>iter\<close> in particular) are left to the caller of the model. The current point is
  called \<^verbatim>\<open>wrt\<close> in the older modules and \<^verbatim>\<open>x\<close> in the newer ones; the model calls it
  \<open>wrt\<close> throughout. The dimension \<^verbatim>\<open>self.n\<close> is the field \<open>dim_n\<close>.
\<close>

record optimizer =
  wrt :: vec
  f_x :: real
  eps :: real
  max_iter :: int
  iter :: int

text \<open>
  \<^verbatim>\<open>momentum_type\<close> is a string in the source; every constructor that stores it has
  checked it against the three names below, so the stored attribute is one of them.
\<close>

datatype momentum_kind = NoMomentum | Standard | Nesterov

record momentum_optimizer = optimizer +
  momentum_type :: momentum_kind
  momentum :: real
  step :: vec

text \<open>
  A run of a line-search optimizer: the attributes of \<^verbatim>\<open>self\<close> (and of
  \<^verbatim>\<open>self.line_search\<close>) together with the locals that every such \<^verbatim>\<open>minimize\<close> threads
  through its loop (\<^verbatim>\<open>f_eval\<close>, the last point visited by the line search and its
  gradient).
\<close>

record line_search_optimizer = optimizer +
  dim_n :: int
  max_f_eval :: int
  m_inf :: real
  min_a :: real
  a_start :: real
  f_eval :: int
  last_wrt :: vec
  last_g :: vec

text \<open>What one pass of a \<^verbatim>\<open>while True\<close> loop does: \<^verbatim>\<open>break\<close> with a status, or go on.\<close>

datatype 's pass = Done 's status | Next 's

section \<open>Steepest descent with exact line search on a quadratic\<close>


text \<open>
  The \<^verbatim>\<open>while True\<close> loop of \<^verbatim>\<open>SteepestGradientDescentQuadratic.minimize\<close>. Printing and
  plotting are left out. Every pass that does not break increments \<^verbatim>\<open>iter\<close>, and the
  loop breaks once \<^verbatim>\<open>iter > max_iter\<close>, which is the termination argument.
\<close>

function sdq_loop :: "objective \<Rightarrow> optimizer \<Rightarrow> optimizer \<times> status" where
  "sdq_loop f s =
     (let g = jacobian f (wrt s); ng = norm2 g in
      if ng \<le> eps s then (s, Optimal)
      else if iter s > max_iter s then (s, Stopped)
      else
        let d = vneg g;
            den = dot (vec_mat d (hessian f)) d in
        if den \<le> 1 / 10 ^ 12 then (s, Unbounded)
        else
          let a = dot d d / den;
              last_wrt = vadd (wrt s) (smul a d) in
          sdq_loop f (s\<lparr>wrt := last_wrt, iter := iter s + 1\<rparr>))"
  by pat_completeness auto
termination
  by (relation "measure (\<lambda>(f, s). nat (max_iter s + 1 - iter s))") auto

text \<open>\<^verbatim>\<open>minimize\<close> returns \<^verbatim>\<open>(self.wrt, status)\<close>; the object keeps the counter.\<close>

definition sdq_minimize :: "objective \<Rightarrow> optimizer \<Rightarrow> vec \<times> status" where
  "sdq_minimize f s = (let (s', st) = sdq_loop f s in (wrt s', st))"

text \<open>The number of times the run incremented \<^verbatim>\<open>self.iter\<close>.\<close>

definition sdq_iterations :: "objective \<Rightarrow> optimizer \<Rightarrow> int" where
  "sdq_iterations f s = iter (fst (sdq_loop f s)) - iter s"

section \<open>Gradient descent with momentum\<close>

record gradient_descent = momentum_optimizer +
  step_rate :: real


text \<open>
  The momentum branch of one pass of \<^verbatim>\<open>GradientDescent.minimize\<close>: the new point
  (\<^verbatim>\<open>self.wrt\<close> is updated in place) and the local \<^verbatim>\<open>step\<close>.
\<close>

definition gd_update :: "objective \<Rightarrow> gradient_descent \<Rightarrow> vec \<times> vec" where
  "gd_update f s =
     (let step_m1 = step s in
      case momentum_type s of
        Standard \<Rightarrow>
          let gradient = jacobian f (wrt s);
              stp = vadd (smul (momentum s) step_m1) (smul (step_rate s) gradient)
          in (vsub (wrt s) stp, stp)
      | Nesterov \<Rightarrow>
          let big_jump = smul (momentum s) step_m1;
              w1 = vsub (wrt s) big_jump;
              gradient = jacobian f w1;
              correction = smul (step_rate s) gradient
          in (vsub w1 correction, vadd big_jump correction)
      | NoMomentum \<Rightarrow>
          let gradient = jacobian f (wrt s);
              stp = smul (step_rate s) gradient
          in (vsub (wrt s) stp, stp))"

text \<open>
  The \<^verbatim>\<open>while True\<close> loop. \<^verbatim>\<open>ng\<close> and \<^verbatim>\<open>ng0\<close> are the locals computed before the loop;
  the loop body never assigns them again.
\<close>

function gd_loop :: "objective \<Rightarrow> real \<Rightarrow> real \<Rightarrow> gradient_descent \<Rightarrow> gradient_descent \<times> status" where
  "gd_loop f ng ng0 s =
     (let s1 = s\<lparr>wrt := fst (gd_update f s)\<rparr> in
      if ng \<le> eps s * ng0 then (s1, Optimal)
      else if iter s > max_iter s then (s1, Stopped)
      else gd_loop f ng ng0 (s1\<lparr>step := snd (gd_update f s), iter := iter s + 1\<rparr>))"
  by pat_completeness auto
termination
  by (relation "measure (\<lambda>(f, ng, ng0, s). nat (max_iter s + 1 - iter s))") auto

definition gd_minimize :: "objective \<Rightarrow> gradient_descent \<Rightarrow> vec \<times> status" where
  "gd_minimize f s =
     (let g = jacobian f (wrt s);
          ng = norm2 g;
          ng0 = (if eps s < 0 then - ng else 1);
          (s', st) = gd_loop f ng ng0 s
      in (wrt s', st))"

section \<open>Nonlinear conjugate gradient\<close>


text \<open>
  The attribute \<^verbatim>\<open>wf\<close> is the field \<open>wf_ncg\<close>. The locals \<^verbatim>\<open>v\<close>, \<^verbatim>\<open>g\<close>, \<^verbatim>\<open>ng\<close> of the loop are \<open>cur_v\<close>, \<open>cur_g\<close>, \<open>cur_ng\<close>;
  \<^verbatim>\<open>past_g\<close> and \<^verbatim>\<open>past_d\<close> are assigned together at the end of the direction
  computation and are unbound before, hence the option.
\<close>

record ncg = line_search_optimizer +
  wf_ncg :: int
  r_start :: int
  cur_v :: real
  cur_g :: vec
  cur_ng :: real
  past_gd :: "(vec \<times> vec) option"


text \<open>
  The restart test, as Python parses it: \<^verbatim>\<open>%\<close> and \<^verbatim>\<open>*\<close> have the same precedence and
  associate to the left, so \<^verbatim>\<open>self.iter % self.n * self.r_start\<close> is
  \<^verbatim>\<open>(self.iter % self.n) * self.r_start\<close>. Python's \<^verbatim>\<open>%\<close> on integers takes the sign of the
  divisor, as \<open>mod\<close> on \<^typ>\<open>int\<close> does.
\<close>

definition ncg_restart :: "int \<Rightarrow> int \<Rightarrow> int \<Rightarrow> bool" where
  "ncg_restart n r i = (r > 0 \<and> (i mod n) * r = 0)"

text \<open>
  The value of \<^verbatim>\<open>beta\<close> in an iteration other than the first. With a \<^verbatim>\<open>wf\<close> outside
  \<open>0..4\<close> no branch assigns \<^verbatim>\<open>beta\<close>; with \<^verbatim>\<open>self.n = 0\<close> the restart test divides by
  zero.
\<close>

definition ncg_beta :: "ncg \<Rightarrow> error + real" where
  "ncg_beta s =
     (let g = cur_g s; ng = cur_ng s in
      if r_start s > 0 \<and> dim_n s = 0 then Inl ZeroDivisionError
      else if ncg_restart (dim_n s) (r_start s) (iter s) then Inr 0
      else case past_gd s of
        None \<Rightarrow> Inl UnboundLocalError
      | Some (past_g, past_d) \<Rightarrow>
          if wf_ncg s = 0 then
            let betaFR = (ng / norm2 past_g) ^ 2;
                betaPR = dot g (vsub g past_g) / (norm2 past_g) ^ 2
            in Inr (max (- betaFR) (min betaPR betaFR))
          else if wf_ncg s = 1 then Inr ((ng / norm2 past_g) ^ 2)
          else if wf_ncg s = 2 then Inr (max (dot g (vsub g past_g) / (norm2 past_g) ^ 2) 0)
          else if wf_ncg s = 3 then Inr (dot g (vsub g past_g) / dot (vsub g past_g) past_d)
          else if wf_ncg s = 4 then Inr (ng ^ 2 / dot (vsub g past_g) past_d)
          else Inl UnboundLocalError)"

text \<open>The search direction \<^verbatim>\<open>d\<close> of one iteration.\<close>

definition ncg_direction :: "ncg \<Rightarrow> error + vec" where
  "ncg_direction s =
     (if iter s = 1 then Inr (vneg (cur_g s))
      else case ncg_beta s of
        Inl e \<Rightarrow> Inl e
      | Inr b \<Rightarrow>
          if b \<noteq> 0 then
            (case past_gd s of
               None \<Rightarrow> Inl UnboundLocalError
             | Some (past_g, past_d) \<Rightarrow> Inr (vadd (vneg (cur_g s)) (smul b past_d)))
          else Inr (vneg (cur_g s)))"




section \<open>Heavy ball gradient\<close>

text \<open>
  Here the line search takes \<^verbatim>\<open>(d, x, last_x, last_g, f_eval, f_x, phi_p0)\<close> (and a
  verbosity flag) and returns \<^verbatim>\<open>(a, f_x, last_x, last_g, f_eval)\<close>.
\<close>

type_synonym hb_line_search =
  "vec \<Rightarrow> vec \<Rightarrow> vec \<Rightarrow> vec \<Rightarrow> int \<Rightarrow> real \<Rightarrow> real \<Rightarrow> real \<times> real \<times> vec \<times> vec \<times> int"

record heavy_ball = line_search_optimizer +
  beta :: real
  past_d :: vec

text \<open>The deflected gradient direction of one iteration, from \<^verbatim>\<open>g\<close> and \<^verbatim>\<open>ng\<close>.\<close>

definition hbg_direction :: "heavy_ball \<Rightarrow> vec \<Rightarrow> real \<Rightarrow> vec" where
  "hbg_direction s g ng =
     (if iter s = 0 then vneg g
      else
        let beta_i = (if beta s > 0 then beta s else - beta s * ng / norm2 (past_d s))
        in vadd (vneg g) (smul beta_i (past_d s)))"

text \<open>One pass of the loop of \<^verbatim>\<open>HeavyBallGradient.minimize\<close> (the callback is a hook).\<close>

definition hbg_iteration :: "hb_line_search \<Rightarrow> objective \<Rightarrow> heavy_ball \<Rightarrow> heavy_ball pass" where
  "hbg_iteration ls f s =
     (let fx = function_val f (wrt s);
          g = jacobian f (wrt s);
          ng = norm2 g;
          ng0 = (if eps s < 0 then - ng else 1);
          s0 = s\<lparr>f_x := fx\<rparr>
      in if ng \<le> eps s * ng0 then Done s0 Optimal
         else if iter s > max_iter s \<or> f_eval s > max_f_eval s then Done s0 Stopped
         else
           let d = hbg_direction s g ng;
               phi_p0 = dot g d;
               (a, fx', lx, lg, fe) = ls d (wrt s) (last_wrt s) (last_g s) (f_eval s) fx phi_p0;
               s1 = s\<lparr>f_x := fx', last_wrt := lx, last_g := lg, f_eval := fe\<rparr>
           in if a \<le> min_a s then Done s1 Error
              else if fx' \<le> m_inf s then Done s1 Unbounded
              else Next (s1\<lparr>past_d := vsub lx (wrt s), wrt := lx, iter := iter s + 1\<rparr>))"

function hbg_loop :: "hb_line_search \<Rightarrow> objective \<Rightarrow> heavy_ball \<Rightarrow> heavy_ball \<times> status" where
  "hbg_loop ls f s =
     (case hbg_iteration ls f s of
        Done s' st \<Rightarrow> (s', st)
      | Next s' \<Rightarrow> hbg_loop ls f s')"
  by pat_completeness auto
termination
  by (relation "measure (\<lambda>(ls, f, s). nat (max_iter s + 1 - iter s))")
     (auto simp: hbg_iteration_def Let_def split: if_splits prod.splits)

text \<open>
  \<^verbatim>\<open>minimize\<close>: the locals are initialised, the loop runs, and the result is
  \<^verbatim>\<open>(self.x, self.f_x, status)\<close>.
\<close>

definition hbg_minimize :: "hb_line_search \<Rightarrow> objective \<Rightarrow> heavy_ball \<Rightarrow> vec \<times> real \<times> status" where
  "hbg_minimize ls f s =
     (let n = length (wrt s);
          s0 = s\<lparr>last_wrt := replicate n 0, last_g := replicate n 0, f_eval := 1,
                  past_d := replicate n 0\<rparr>;
          (s', st) = hbg_loop ls f s0
      in (wrt s', f_x s', st))"

section \<open>The stochastic family: RProp and AdaMax\<close>

text \<open>
  The objective of a stochastic optimizer is evaluated on a mini-batch:
  \<^verbatim>\<open>f.function(x, *args)\<close> and \<^verbatim>\<open>f.jacobian(x, *args)\<close>.
\<close>

record 'b batch_objective =
  batch_function :: "vec \<Rightarrow> 'b \<Rightarrow> real"
  batch_jacobian :: "vec \<Rightarrow> 'b \<Rightarrow> vec"

text \<open>\<^verbatim>\<open>np.clip(c, lo, hi)\<close> is \<^verbatim>\<open>np.minimum(hi, np.maximum(c, lo))\<close>.\<close>

definition clip :: "real \<Rightarrow> real \<Rightarrow> real \<Rightarrow> real" where
  "clip c lo hi = min hi (max c lo)"

record rprop = momentum_optimizer +
  min_step :: real
  step_shrink :: real
  step_grow :: real
  max_step :: real
  self_jacobian :: vec
  changes :: vec

text \<open>
  \<^verbatim>\<open>RProp.__init__\<close> after the base constructor: the four parameters are stored
  unchecked, and \<^verbatim>\<open>self.jacobian\<close> and \<^verbatim>\<open>self.changes\<close> are \<^verbatim>\<open>np.zeros_like(self.x)\<close>.
\<close>

definition rprop_init :: "momentum_optimizer \<Rightarrow> real \<Rightarrow> real \<Rightarrow> real \<Rightarrow> real \<Rightarrow> rprop" where
  "rprop_init base min_step0 step_shrink0 step_grow0 max_step0 =
     momentum_optimizer.extend base
       \<lparr> min_step = min_step0, step_shrink = step_shrink0, step_grow = step_grow0,
         max_step = max_step0,
         self_jacobian = replicate (length (wrt base)) 0,
         changes = replicate (length (wrt base)) 0 \<rparr>"

text \<open>
  One coordinate of the three statements that update \<^verbatim>\<open>self.changes\<close>: the masks
  \<^verbatim>\<open>grad_prod > 0\<close> and \<^verbatim>\<open>grad_prod < 0\<close> are disjoint, then the clip.
\<close>

definition rprop_change :: "rprop \<Rightarrow> real \<Rightarrow> real \<Rightarrow> real" where
  "rprop_change s grad_prod c =
     clip (if grad_prod > 0 then c * step_grow s
           else if grad_prod < 0 then c * step_shrink s
           else c)
          (min_step s) (max_step s)"

definition rprop_changes :: "rprop \<Rightarrow> vec \<Rightarrow> vec" where
  "rprop_changes s g =
     map2 (rprop_change s) (vmul (self_jacobian s) g) (changes s)"

text \<open>
  The momentum prologue shared by the stochastic optimizers: \<^verbatim>\<open>step1\<close> (unbound for
  momentum type \<^verbatim>\<open>none\<close>, where it is never read; the model gives the zero vector) and
  the point at which the gradient is taken (shifted for Nesterov momentum).
\<close>

definition momentum_prologue :: "'a momentum_optimizer_scheme \<Rightarrow> vec \<times> vec" where
  "momentum_prologue s =
     (case momentum_type s of
        Standard \<Rightarrow> (smul (momentum s) (step s), wrt s)
      | Nesterov \<Rightarrow> (smul (momentum s) (step s), vsub (wrt s) (smul (momentum s) (step s)))
      | NoMomentum \<Rightarrow> (replicate (length (wrt s)) 0, wrt s))"

text \<open>The epilogue: the new point and the new \<^verbatim>\<open>self.step\<close>, from \<^verbatim>\<open>step1\<close> and \<^verbatim>\<open>step2\<close>.\<close>

definition momentum_epilogue ::
  "'a momentum_optimizer_scheme \<Rightarrow> vec \<Rightarrow> vec \<Rightarrow> vec \<Rightarrow> vec \<times> vec" where
  "momentum_epilogue s xg step1 step2 =
     (case momentum_type s of
        Standard \<Rightarrow> (vsub xg (vadd step1 step2), vadd step1 step2)
      | Nesterov \<Rightarrow> (vsub xg step2, vadd step1 step2)
      | NoMomentum \<Rightarrow> (vsub xg step2, step2))"

text \<open>One pass of the \<^verbatim>\<open>for args in self.batches\<close> loop of \<^verbatim>\<open>RProp.minimize\<close>.\<close>

definition rprop_iteration :: "'b batch_objective \<Rightarrow> 'b \<Rightarrow> rprop \<Rightarrow> rprop pass" where
  "rprop_iteration f args s =
     (let s0 = s\<lparr>f_x := batch_function f (wrt s) args\<rparr> in
      if iter s \<ge> max_iter s then Done s0 Stopped
      else
        let (step1, xg) = momentum_prologue s;
            g = batch_jacobian f xg args;
            ch = rprop_changes s g;
            step2 = vmul ch (map sgn g);
            (xn, stp) = momentum_epilogue s xg step1 step2
        in Next (s0\<lparr>wrt := xn, step := stp, self_jacobian := g, changes := ch,
                     iter := iter s + 1\<rparr>))"

text \<open>
  The loop over the batches. When the batches run out before a \<^verbatim>\<open>break\<close>, the local
  \<^verbatim>\<open>status\<close> was never assigned and the \<^verbatim>\<open>return\<close> statement raises.
\<close>

fun rprop_loop :: "'b batch_objective \<Rightarrow> 'b list \<Rightarrow> rprop \<Rightarrow> error + rprop \<times> status" where
  "rprop_loop f [] s = Inl UnboundLocalError"
| "rprop_loop f (args # rest) s =
     (case rprop_iteration f args s of
        Done s' st \<Rightarrow> Inr (s', st)
      | Next s' \<Rightarrow> rprop_loop f rest s')"

definition rprop_minimize ::
  "'b batch_objective \<Rightarrow> 'b list \<Rightarrow> rprop \<Rightarrow> error + vec \<times> real \<times> status" where
  "rprop_minimize f batches s =
     (case rprop_loop f batches s of
        Inl e \<Rightarrow> Inl e
      | Inr (s', st) \<Rightarrow> Inr (wrt s', f_x s', st))"

record adamax = momentum_optimizer +
  step_size :: real
  beta1 :: real
  beta2 :: real
  offset :: real
  est_mom1 :: vec
  est_mom2 :: vec

text \<open>
  \<^verbatim>\<open>AdaMax.__init__\<close> after the base constructor (the warning about the convergence
  constraint has no effect on the object). The moment estimates start as the scalar
  \<^verbatim>\<open>0\<close>, which numpy broadcasts; the model starts with zero vectors.
\<close>

definition adamax_init ::
  "momentum_optimizer \<Rightarrow> real \<Rightarrow> real \<Rightarrow> real \<Rightarrow> real pyval \<Rightarrow> error + adamax" where
  "adamax_init base step_size0 beta1_0 beta2_0 offset0 =
     (if \<not> (0 \<le> beta1_0 \<and> beta1_0 < 1) then Inl (ValueError ''beta1 has to lie in [0, 1)'')
      else if \<not> (0 \<le> beta2_0 \<and> beta2_0 < 1) then Inl (ValueError ''beta2 has to lie in [0, 1)'')
      else case offset0 of
        NonScalar \<Rightarrow> Inl (ValueError ''offset is not a real scalar'')
      | Scalar off \<Rightarrow>
          if \<not> off > 0 then Inl (ValueError ''offset must be > 0'')
          else Inr (momentum_optimizer.extend base
                 \<lparr> step_size = step_size0, beta1 = beta1_0, beta2 = beta2_0, offset = off,
                   est_mom1 = replicate (length (wrt base)) 0,
                   est_mom2 = replicate (length (wrt base)) 0 \<rparr>))"

text \<open>One pass of the \<^verbatim>\<open>for args in self.args\<close> loop of \<^verbatim>\<open>AdaMax.minimize\<close>.\<close>

definition adamax_iteration :: "'b batch_objective \<Rightarrow> 'b \<Rightarrow> adamax \<Rightarrow> adamax pass" where
  "adamax_iteration f args s =
     (let s0 = s\<lparr>f_x := batch_function f (wrt s) args\<rparr> in
      if iter s \<ge> max_iter s then Done s0 Stopped
      else
        let t = iter s + 1;
            (step1, xg) = momentum_prologue s;
            g = batch_jacobian f xg args;
            m1 = vadd (smul (beta1 s) (est_mom1 s)) (smul (1 - beta1 s) g);
            m2 = map2 max (smul (beta2 s) (est_mom2 s)) (map abs g);
            est_mom1_crt = map (\<lambda>m. m / (1 - beta1 s powi t)) m1;
            step2 = map2 (\<lambda>m u. step_size s * m / (u + offset s)) est_mom1_crt m2;
            (xn, stp) = momentum_epilogue s xg step1 step2
        in Next (s0\<lparr>wrt := xn, step := stp, est_mom1 := m1, est_mom2 := m2,
                     iter := iter s + 1\<rparr>))"

fun adamax_loop :: "'b batch_objective \<Rightarrow> 'b list \<Rightarrow> adamax \<Rightarrow> error + adamax \<times> status" where
  "adamax_loop f [] s = Inl UnboundLocalError"
| "adamax_loop f (args # rest) s =
     (case adamax_iteration f args s of
        Done s' st \<Rightarrow> Inr (s', st)
      | Next s' \<Rightarrow> adamax_loop f rest s')"

definition adamax_minimize ::
  "'b batch_objective \<Rightarrow> 'b list \<Rightarrow> adamax \<Rightarrow> error + vec \<times> real \<times> status" where
  "adamax_minimize f batches s =
     (case adamax_loop f batches s of
        Inl e \<Rightarrow> Inl e
      | Inr (s', st) \<Rightarrow> Inr (wrt s', f_x s', st))"

section \<open>Auxiliary facts\<close>

lemma sqrt_two_above_eps: "\<not> sqrt 2 * 1000000 \<le> 1"
proof -
  have "1 \<le> sqrt 2" by simp
  then show ?thesis by linarith
qed

lemma sdq_loop_unfold:
  "sdq_loop f s =
     (let g = jacobian f (wrt s); ng = norm2 g in
      if ng \<le> eps s then (s, Optimal)
      else if iter s > max_iter s then (s, Stopped)
      else
        let d = vneg g;
            den = dot (vec_mat d (hessian f)) d in
        if den \<le> 1 / 10 ^ 12 then (s, Unbounded)
        else
          let a = dot d d / den;
              last_wrt = vadd (wrt s) (smul a d) in
          sdq_loop f (s\<lparr>wrt := last_wrt, iter := iter s + 1\<rparr>))"
  by (rule sdq_loop.simps)

declare sdq_loop.simps [simp del]

lemmas vec_defs = vneg_def vadd_def vsub_def vmul_def smul_def dot_def norm2_def mat_vec_def

section \<open>Exact steepest descent on the identity quadratic\<close>

lemma sdq_identity_loop:
  assumes "i0 \<le> 1000"
  shows "sdq_loop (quad [[1, 0], [0, 1]] [0, 0])
           \<lparr>wrt = [- 1, 1], f_x = v0, eps = 1 / 10 ^ 6, max_iter = 1000, iter = i0\<rparr>
         = (\<lparr>wrt = [0, 0], f_x = v0, eps = 1 / 10 ^ 6, max_iter = 1000, iter = i0 + 1\<rparr>, Optimal)"
proof -
  let ?f = "quad [[1, 0], [0, 1]] [0, 0]"
  let ?s1 = "\<lparr>wrt = [0, 0], f_x = v0, eps = 1 / 10 ^ 6, max_iter = 1000, iter = i0 + 1\<rparr>"
  have first: "sdq_loop ?f \<lparr>wrt = [- 1, 1], f_x = v0, eps = 1 / 10 ^ 6, max_iter = 1000, iter = i0\<rparr>
                 = sdq_loop ?f ?s1"
    using assms
    by (subst sdq_loop_unfold) (simp add: quad_def Let_def vec_defs sqrt_two_above_eps)
  have second: "sdq_loop ?f ?s1 = (?s1, Optimal)"
    by (subst sdq_loop_unfold) (simp add: quad_def Let_def vec_defs)
  from first second show ?thesis by simp
qed

text \<open>
  C1. For \<open>Q = diag(1,1)\<close>, \<open>q = (0,0)\<close> and the start point \<open>(-1,1)\<close>, with the default
  \<open>eps = 1e-6\<close> and \<open>max_iter = 1000\<close>, \<^verbatim>\<open>SteepestGradientDescentQuadratic.minimize\<close>
  returns the point \<open>(0,0)\<close> with status \<open>optimal\<close>, and the run increments the iteration
  counter exactly once. The initial counter \<open>i0\<close> is set by the base class; the result
  holds for every initial value within the budget.
\<close>

theorem sdq_identity_quadratic_one_iteration:
  assumes "i0 \<le> 1000"
  shows "sdq_minimize (quad [[1, 0], [0, 1]] [0, 0])
           \<lparr>wrt = [- 1, 1], f_x = v0, eps = 1 / 10 ^ 6, max_iter = 1000, iter = i0\<rparr>
           = ([0, 0], Optimal)
         \<and> sdq_iterations (quad [[1, 0], [0, 1]] [0, 0])
           \<lparr>wrt = [- 1, 1], f_x = v0, eps = 1 / 10 ^ 6, max_iter = 1000, iter = i0\<rparr> = 1"
  using sdq_identity_loop [OF assms, of v0]
  by (simp add: sdq_minimize_def sdq_iterations_def)

theorem sdq_identity_quadratic_one_iteration_witness:
  "(1::int) \<le> 1000
   \<and> sdq_minimize (quad [[1, 0], [0, 1]] [0, 0])
        \<lparr>wrt = [- 1, 1], f_x = 0, eps = 1 / 10 ^ 6, max_iter = 1000, iter = 1\<rparr>
        = ([0, 0], Optimal)
   \<and> sdq_iterations (quad [[1, 0], [0, 1]] [0, 0])
        \<lparr>wrt = [- 1, 1], f_x = 0, eps = 1 / 10 ^ 6, max_iter = 1000, iter = 1\<rparr> = 1"
  using sdq_identity_quadratic_one_iteration [of 1 0] by simp

section \<open>Exact steepest descent: the step and the unboundedness test\<close>

text \<open>
  C2, as stated, fails. The linear objective \<open>f(x) = - q\<^sup>T x\<close> with \<open>Q = 0\<close> and
  \<open>q = (1e-7, 0)\<close> is unbounded below along \<open>d = - g = q\<close>, a non-zero direction of zero
  curvature, yet with the default \<open>eps = 1e-6\<close> the run from \<open>(0,0)\<close> breaks at the
  stopping test on the gradient norm, which comes first, and returns \<open>optimal\<close>.
\<close>

theorem sdq_zero_curvature_small_gradient_optimal:
  "vneg (jacobian (quad [[0, 0], [0, 0]] [1 / 10 ^ 7, 0]) [0, 0]) = [1 / 10 ^ 7, 0]
   \<and> dot (vec_mat [1 / 10 ^ 7, 0] (hessian (quad [[0, 0], [0, 0]] [1 / 10 ^ 7, 0]))) [1 / 10 ^ 7, 0] = 0
   \<and> sdq_minimize (quad [[0, 0], [0, 0]] [1 / 10 ^ 7, 0])
        \<lparr>wrt = [0, 0], f_x = 0, eps = 1 / 10 ^ 6, max_iter = 1000, iter = 1\<rparr>
        = ([0, 0], Optimal)"
proof -
  have small: "sqrt (1 / 100000000000000) \<le> 1 / 1000000"
    by (rule real_le_lsqrt) (simp_all add: power2_eq_square)
  have "sdq_loop (quad [[0, 0], [0, 0]] [1 / 10 ^ 7, 0])
          \<lparr>wrt = [0, 0], f_x = 0, eps = 1 / 10 ^ 6, max_iter = 1000, iter = 1\<rparr>
        = (\<lparr>wrt = [0, 0], f_x = 0, eps = 1 / 10 ^ 6, max_iter = 1000, iter = 1\<rparr>, Optimal)"
    using small by (subst sdq_loop_unfold) (simp add: quad_def Let_def vec_defs)
  then show ?thesis
    by (simp add: sdq_minimize_def quad_def vec_defs)
qed

text \<open>
  C2, amended. In every pass of the loop that gets beyond the two stopping tests (the
  gradient norm exceeds \<open>eps\<close> and \<open>iter \<le> max_iter\<close>), the direction is \<open>d = - g\<close>;
  if \<open>d\<^sup>T Q d \<le> 1e-12\<close> the run ends there with status \<open>unbounded\<close> at the current
  point, and otherwise the run continues from \<open>x + a d\<close> with \<open>a = d\<^sup>T d / (d\<^sup>T Q d)\<close> and
  the counter incremented. In particular a start point beyond the stopping tests whose
  \<open>- g\<close> has zero or negative curvature gives \<open>unbounded\<close>.
\<close>

theorem sdq_step_and_unbounded:
  assumes "eps s < norm2 (jacobian f (wrt s))" and "iter s \<le> max_iter s"
  shows "let d = vneg (jacobian f (wrt s)); den = dot (vec_mat d (hessian f)) d in
           (den \<le> 1 / 10 ^ 12 \<longrightarrow>
              sdq_loop f s = (s, Unbounded) \<and> sdq_minimize f s = (wrt s, Unbounded))
         \<and> (1 / 10 ^ 12 < den \<longrightarrow>
              sdq_loop f s =
                sdq_loop f (s\<lparr>wrt := vadd (wrt s) (smul (dot d d / den) d), iter := iter s + 1\<rparr>))"
  using assms
  by (subst (1 2) sdq_loop_unfold, unfold sdq_minimize_def, subst sdq_loop_unfold)
     (simp add: Let_def)

theorem sdq_step_and_unbounded_witness:
  "eps \<lparr>wrt = [0, 0], f_x = 0, eps = 1 / 10 ^ 6, max_iter = 1000, iter = 1\<rparr>
     < norm2 (jacobian (quad [[0, 0], [0, 0]] [1, 0]) [0, 0])
   \<and> (1::int) \<le> 1000
   \<and> sdq_minimize (quad [[0, 0], [0, 0]] [1, 0])
        \<lparr>wrt = [0, 0], f_x = 0, eps = 1 / 10 ^ 6, max_iter = 1000, iter = 1\<rparr>
        = ([0, 0], Unbounded)"
  using sdq_step_and_unbounded
          [of "\<lparr>wrt = [0, 0], f_x = 0, eps = 1 / 10 ^ 6, max_iter = 1000, iter = 1\<rparr>"
              "quad [[0, 0], [0, 0]] [1, 0]"]
  by (simp add: quad_def Let_def vec_defs)

section \<open>Gradient descent: the stopping test\<close>

lemma gd_loop_unfold:
  "gd_loop f ng ng0 s =
     (let s1 = s\<lparr>wrt := fst (gd_update f s)\<rparr> in
      if ng \<le> eps s * ng0 then (s1, Optimal)
      else if iter s > max_iter s then (s1, Stopped)
      else gd_loop f ng ng0 (s1\<lparr>step := snd (gd_update f s), iter := iter s + 1\<rparr>))"
  by (rule gd_loop.simps)

declare gd_loop.simps [simp del]

text \<open>
  The status of the loop is fixed by the values of \<^verbatim>\<open>ng\<close> and \<^verbatim>\<open>ng0\<close> computed before
  the loop: the gradients taken inside the loop never reach the stopping test.
\<close>

lemma gd_loop_status:
  "snd (gd_loop f ng ng0 s) = (if ng \<le> eps s * ng0 then Optimal else Stopped)"
proof (induction f ng ng0 s rule: gd_loop.induct)
  case (1 f ng ng0 s)
  show ?case
  proof (cases "ng \<le> eps s * ng0")
    case True
    then show ?thesis by (subst gd_loop_unfold) (simp add: Let_def)
  next
    case False
    show ?thesis
    proof (cases "iter s > max_iter s")
      case True
      with False show ?thesis by (subst gd_loop_unfold) (simp add: Let_def)
    next
      case stay: False
      from "1.IH" [OF refl False stay] False stay show ?thesis
        by (subst gd_loop_unfold) (simp add: Let_def)
    qed
  qed
qed

lemma gd_loop_rest_at_origin:
  "momentum_type s = NoMomentum \<Longrightarrow> wrt s = [0, 0] \<Longrightarrow>
     wrt (fst (gd_loop (quad [[1, 0], [0, 1]] [0, 0]) ng ng0 s)) = [0, 0]"
proof (induction "quad [[1, 0], [0, 1]] [0, 0]" ng ng0 s rule: gd_loop.induct)
  case (1 ng ng0 s)
  have upd: "fst (gd_update (quad [[1, 0], [0, 1]] [0, 0]) s) = [0, 0]"
    using "1.prems" by (simp add: gd_update_def quad_def Let_def vec_defs)
  show ?case
  proof (cases "ng \<le> eps s * ng0 \<or> iter s > max_iter s")
    case True
    then show ?thesis using upd
      by (subst gd_loop_unfold) (auto simp: Let_def)
  next
    case False
    then have a: "\<not> ng \<le> eps s * ng0" and b: "\<not> iter s > max_iter s" by auto
    have "wrt (fst (gd_loop (quad [[1, 0], [0, 1]] [0, 0]) ng ng0
            (s\<lparr>wrt := fst (gd_update (quad [[1, 0], [0, 1]] [0, 0]) s),
                step := snd (gd_update (quad [[1, 0], [0, 1]] [0, 0]) s),
                iter := iter s + 1\<rparr>))) = [0, 0]"
      using "1.hyps" [OF refl a b] "1.prems" upd by simp
    with a b show ?thesis
      by (subst gd_loop_unfold) (simp add: Let_def)
  qed
qed

text \<open>
  C5. The stopping test of \<^verbatim>\<open>GradientDescent.minimize\<close> does not look at the gradient
  of the current iterate. On \<open>Q = diag(1,1)\<close>, \<open>q = (0,0)\<close>, start \<open>(-1,1)\<close>,
  \<open>step_rate = 1\<close>, no momentum, default \<open>eps\<close> and \<open>max_iter\<close>, the first step lands on
  the minimiser \<open>(0,0)\<close>, where the gradient norm is \<open>0 \<le> eps\<close>; the run nevertheless goes
  on until the iteration budget is spent and returns \<open>stopped\<close>.
\<close>

theorem gd_stops_late_at_minimiser:
  "gd_minimize (quad [[1, 0], [0, 1]] [0, 0])
     \<lparr>wrt = [- 1, 1], f_x = 0, eps = 1 / 10 ^ 6, max_iter = 1000, iter = 1,
       momentum_type = NoMomentum, momentum = 0, step = [0, 0], step_rate = 1\<rparr>
     = ([0, 0], Stopped)
   \<and> norm2 (jacobian (quad [[1, 0], [0, 1]] [0, 0]) [0, 0]) \<le> 1 / 10 ^ 6"
proof -
  let ?f = "quad [[1, 0], [0, 1]] [0, 0]"
  let ?s = "\<lparr>wrt = [- 1, 1], f_x = 0, eps = 1 / 10 ^ 6, max_iter = 1000, iter = 1,
       momentum_type = NoMomentum, momentum = 0, step = [0, 0], step_rate = 1\<rparr>"
  let ?s1 = "\<lparr>wrt = [0, 0], f_x = 0, eps = 1 / 10 ^ 6, max_iter = 1000, iter = 2,
       momentum_type = NoMomentum, momentum = 0, step = [- 1, 1], step_rate = 1\<rparr>"
  have st: "snd (gd_loop ?f (sqrt 2) 1 ?s) = Stopped"
    by (simp add: gd_loop_status sqrt_two_above_eps)
  have "gd_loop ?f (sqrt 2) 1 ?s = gd_loop ?f (sqrt 2) 1 ?s1"
    by (subst gd_loop_unfold)
       (simp add: Let_def gd_update_def quad_def vec_defs sqrt_two_above_eps)
  moreover have "wrt (fst (gd_loop ?f (sqrt 2) 1 ?s1)) = [0, 0]"
    by (rule gd_loop_rest_at_origin) simp_all
  ultimately have pt: "wrt (fst (gd_loop ?f (sqrt 2) 1 ?s)) = [0, 0]"
    by simp
  have ng: "norm2 (jacobian ?f (wrt ?s)) = sqrt 2"
    by (simp add: quad_def vec_defs)
  have "gd_minimize ?f ?s = ([0, 0], Stopped)"
    unfolding gd_minimize_def Let_def ng using st pt
    by (simp add: case_prod_beta)
  then show ?thesis
    by (simp add: quad_def vec_defs)
qed

section \<open>Nonlinear conjugate gradient: restarts and the search direction\<close>

lemma ncg_restart_iff:
  assumes "n \<noteq> 0" and "0 < r"
  shows "ncg_restart n r i \<longleftrightarrow> n dvd i"
  using assms by (auto simp: ncg_restart_def dvd_eq_mod_eq_0)


text \<open>
  C4. The restart test is \<^verbatim>\<open>self.iter % self.n * self.r_start == 0\<close>, which Python reads
  as \<^verbatim>\<open>(self.iter % self.n) * self.r_start == 0\<close>: with \<open>r_start > 0\<close> it holds at every
  multiple of \<open>n\<close>, not only at the multiples of \<open>n * r_start\<close>. In dimension \<open>n = 2\<close> with
  \<open>r_start = 2\<close>, iteration \<open>2\<close> is not a multiple of \<open>4\<close>, yet it is a restart: \<open>beta\<close> is
  \<open>0\<close> and the direction is \<open>- g\<close>, where the Fletcher-Reeves formula alone would give
  \<open>beta = 2\<close>.
\<close>

theorem ncg_restart_at_non_multiple:
  "ncg_restart 2 2 2
   \<and> \<not> (2 * 2 :: int) dvd 2
   \<and> ncg_beta
        \<lparr>wrt = [0, 0], f_x = 0, eps = 1 / 10 ^ 6, max_iter = 1000, iter = 2,
          dim_n = 2, max_f_eval = 1000, m_inf = - 1, min_a = 0, a_start = 1,
          f_eval = 2, last_wrt = [0, 0], last_g = [1, 1],
          wf_ncg = 1, r_start = 2, cur_v = 0, cur_g = [1, 1], cur_ng = sqrt 2,
          past_gd = Some ([1, 0], [- 1, 0])\<rparr> = Inr 0
   \<and> ncg_direction
        \<lparr>wrt = [0, 0], f_x = 0, eps = 1 / 10 ^ 6, max_iter = 1000, iter = 2,
          dim_n = 2, max_f_eval = 1000, m_inf = - 1, min_a = 0, a_start = 1,
          f_eval = 2, last_wrt = [0, 0], last_g = [1, 1],
          wf_ncg = 1, r_start = 2, cur_v = 0, cur_g = [1, 1], cur_ng = sqrt 2,
          past_gd = Some ([1, 0], [- 1, 0])\<rparr> = Inr [- 1, - 1]
   \<and> (sqrt 2 / norm2 [1, 0]) ^ 2 = 2"
  by (simp add: ncg_restart_def ncg_beta_def ncg_direction_def Let_def vec_defs)






section \<open>Heavy ball gradient: the deflection term\<close>

lemma vsub_vadd_smul:
  "length d = length y \<Longrightarrow> vsub (vadd y (smul a d)) y = smul a d"
  by (induction d y rule: list_induct2) (simp_all add: vec_defs)

text \<open>
  C8, as stated, fails: \<^verbatim>\<open>past_d\<close> is not the previous search direction but the
  previous displacement \<^verbatim>\<open>last_x - self.x\<close>. On \<open>f(x) = 2 x\<^sup>2\<close> from \<open>x = 1\<close> with
  \<open>beta = 0.9\<close>, the first direction is \<open>- 4\<close>; the unit step fails the sufficient
  decrease condition, and with a line search that returns the step \<open>1/8\<close> (which
  satisfies the Armijo and the strong Wolfe conditions for the default constants) the
  displacement is \<open>- 1/2\<close>. The second direction is then \<open>- 2 + 0.9 * (- 1/2) = - 2.45\<close>,
  not \<open>- 2 + 0.9 * (- 4) = - 5.6\<close>.
\<close>

theorem hbg_second_direction_not_from_first_direction:
  "hbg_direction
     \<lparr>wrt = [1], f_x = 0, eps = 1 / 10 ^ 6, max_iter = 1000, iter = 0,
       dim_n = 1, max_f_eval = 1000, m_inf = - 1000, min_a = 1 / 10 ^ 16, a_start = 1,
       f_eval = 1, last_wrt = [0], last_g = [0], beta = 9 / 10, past_d = [0]\<rparr>
     (jacobian (quad [[4]] [0]) [1]) (norm2 (jacobian (quad [[4]] [0]) [1])) = [- 4]
   \<and> hbg_iteration
       (\<lambda>d y lx lg fe fx phi_p0.
          (1 / 8, function_val (quad [[4]] [0]) (vadd y (smul (1 / 8) d)),
           vadd y (smul (1 / 8) d), jacobian (quad [[4]] [0]) (vadd y (smul (1 / 8) d)),
           fe + 1))
       (quad [[4]] [0])
       \<lparr>wrt = [1], f_x = 0, eps = 1 / 10 ^ 6, max_iter = 1000, iter = 0,
         dim_n = 1, max_f_eval = 1000, m_inf = - 1000, min_a = 1 / 10 ^ 16, a_start = 1,
         f_eval = 1, last_wrt = [0], last_g = [0], beta = 9 / 10, past_d = [0]\<rparr>
     = Next
       \<lparr>wrt = [1 / 2], f_x = 1 / 2, eps = 1 / 10 ^ 6, max_iter = 1000, iter = 1,
         dim_n = 1, max_f_eval = 1000, m_inf = - 1000, min_a = 1 / 10 ^ 16, a_start = 1,
         f_eval = 2, last_wrt = [1 / 2], last_g = [2], beta = 9 / 10, past_d = [- 1 / 2]\<rparr>
   \<and> hbg_direction
       \<lparr>wrt = [1 / 2], f_x = 1 / 2, eps = 1 / 10 ^ 6, max_iter = 1000, iter = 1,
         dim_n = 1, max_f_eval = 1000, m_inf = - 1000, min_a = 1 / 10 ^ 16, a_start = 1,
         f_eval = 2, last_wrt = [1 / 2], last_g = [2], beta = 9 / 10, past_d = [- 1 / 2]\<rparr>
       (jacobian (quad [[4]] [0]) [1 / 2]) (norm2 (jacobian (quad [[4]] [0]) [1 / 2]))
     = [- 49 / 20]
   \<and> vadd (vneg (jacobian (quad [[4]] [0]) [1 / 2])) (smul (9 / 10) [- 4]) = [- 28 / 5]"
  by (simp add: hbg_direction_def hbg_iteration_def Let_def quad_def vec_defs)

text \<open>
  C8, amended. The iteration with \<open>iter = 0\<close> takes \<open>d = - g\<close>; every later iteration
  takes \<open>d = - g + beta_i * past_d\<close>, with \<open>beta_i\<close> the configured \<open>beta\<close> when
  \<open>beta > 0\<close> and \<open>|beta| * ||g|| / ||past_d||\<close> when \<open>beta < 0\<close>, where \<open>past_d\<close> is
  the previous displacement: after every pass that goes on, \<open>past_d\<close> is the new point
  minus the old one, which is \<open>a * d\<close> when the line search returns \<open>x + a d\<close>.
\<close>

theorem hbg_direction_uses_displacement:
  "(iter s = 0 \<longrightarrow> hbg_direction s g ng = vneg g)
   \<and> (iter s \<noteq> 0 \<and> 0 < beta s \<longrightarrow>
        hbg_direction s g ng = vadd (vneg g) (smul (beta s) (past_d s)))
   \<and> (iter s \<noteq> 0 \<and> beta s < 0 \<and> norm2 (past_d s) \<noteq> 0 \<longrightarrow>
        hbg_direction s g ng
          = vadd (vneg g) (smul (\<bar>beta s\<bar> * ng / norm2 (past_d s)) (past_d s)))
   \<and> (hbg_iteration ls f s = Next s' \<longrightarrow>
        past_d s' = vsub (wrt s') (wrt s) \<and> iter s' = iter s + 1 \<and> beta s' = beta s
        \<and> (let g0 = jacobian f (wrt s);
                d = hbg_direction s g0 (norm2 g0);
                (a, fx', lx, lg, fe) =
                   ls d (wrt s) (last_wrt s) (last_g s) (f_eval s) (function_val f (wrt s))
                      (dot g0 d)
            in length d = length (wrt s) \<and> lx = vadd (wrt s) (smul a d) \<longrightarrow>
                 past_d s' = smul a d))"
proof (intro conjI impI)
  assume n: "hbg_iteration ls f s = Next s'"
  then show "past_d s' = vsub (wrt s') (wrt s)"
    by (auto simp: hbg_iteration_def Let_def split: if_splits prod.splits)
  from n show "iter s' = iter s + 1"
    by (auto simp: hbg_iteration_def Let_def split: if_splits prod.splits)
  from n show "beta s' = beta s"
    by (auto simp: hbg_iteration_def Let_def split: if_splits prod.splits)
  from n show "let g0 = jacobian f (wrt s);
                d = hbg_direction s g0 (norm2 g0);
                (a, fx', lx, lg, fe) =
                   ls d (wrt s) (last_wrt s) (last_g s) (f_eval s) (function_val f (wrt s))
                      (dot g0 d)
            in length d = length (wrt s) \<and> lx = vadd (wrt s) (smul a d) \<longrightarrow>
                 past_d s' = smul a d"
    by (auto simp: hbg_iteration_def Let_def vsub_vadd_smul split: if_splits prod.splits)
qed (simp_all add: hbg_direction_def Let_def)

theorem hbg_direction_uses_displacement_witness:
  "hbg_direction
     \<lparr>wrt = [1], f_x = 0, eps = 1 / 10 ^ 6, max_iter = 1000, iter = 0,
       dim_n = 1, max_f_eval = 1000, m_inf = - 1000, min_a = 1 / 10 ^ 16, a_start = 1,
       f_eval = 1, last_wrt = [0], last_g = [0], beta = 9 / 10, past_d = [0]\<rparr> [4] 4 = [- 4]
   \<and> hbg_direction
     \<lparr>wrt = [1 / 2], f_x = 1 / 2, eps = 1 / 10 ^ 6, max_iter = 1000, iter = 1,
       dim_n = 1, max_f_eval = 1000, m_inf = - 1000, min_a = 1 / 10 ^ 16, a_start = 1,
       f_eval = 2, last_wrt = [1 / 2], last_g = [2], beta = 9 / 10, past_d = [- 1 / 2]\<rparr>
     [2] 2 = [- 49 / 20]
   \<and> hbg_direction
     \<lparr>wrt = [1 / 2], f_x = 1 / 2, eps = 1 / 10 ^ 6, max_iter = 1000, iter = 1,
       dim_n = 1, max_f_eval = 1000, m_inf = - 1000, min_a = 1 / 10 ^ 16, a_start = 1,
       f_eval = 2, last_wrt = [1 / 2], last_g = [2], beta = - 9 / 10, past_d = [- 1]\<rparr>
     [2] 2 = [- 19 / 5]
   \<and> hbg_iteration
       (\<lambda>d y lx lg fe fx phi_p0.
          (1 / 8, function_val (quad [[4]] [0]) (vadd y (smul (1 / 8) d)),
           vadd y (smul (1 / 8) d), jacobian (quad [[4]] [0]) (vadd y (smul (1 / 8) d)),
           fe + 1))
       (quad [[4]] [0])
       \<lparr>wrt = [1], f_x = 0, eps = 1 / 10 ^ 6, max_iter = 1000, iter = 0,
         dim_n = 1, max_f_eval = 1000, m_inf = - 1000, min_a = 1 / 10 ^ 16, a_start = 1,
         f_eval = 1, last_wrt = [0], last_g = [0], beta = 9 / 10, past_d = [0]\<rparr>
     = Next
       \<lparr>wrt = [1 / 2], f_x = 1 / 2, eps = 1 / 10 ^ 6, max_iter = 1000, iter = 1,
         dim_n = 1, max_f_eval = 1000, m_inf = - 1000, min_a = 1 / 10 ^ 16, a_start = 1,
         f_eval = 2, last_wrt = [1 / 2], last_g = [2], beta = 9 / 10, past_d = [- 1 / 2]\<rparr>
   \<and> [- 1 / 2] = smul (1 / 8) [- 4 :: real]"
  using hbg_direction_uses_displacement
          [of "\<lparr>wrt = [1], f_x = 0, eps = 1 / 10 ^ 6, max_iter = 1000, iter = 0,
         dim_n = 1, max_f_eval = 1000, m_inf = - 1000, min_a = 1 / 10 ^ 16, a_start = 1,
         f_eval = 1, last_wrt = [0], last_g = [0], beta = 9 / 10, past_d = [0]\<rparr>"
              "[4]" 4
              "(\<lambda>d y lx lg fe fx phi_p0.
          (1 / 8, function_val (quad [[4]] [0]) (vadd y (smul (1 / 8) d)),
           vadd y (smul (1 / 8) d), jacobian (quad [[4]] [0]) (vadd y (smul (1 / 8) d)),
           fe + 1))"
              "quad [[4]] [0]"
              "\<lparr>wrt = [1 / 2], f_x = 1 / 2, eps = 1 / 10 ^ 6, max_iter = 1000, iter = 1,
         dim_n = 1, max_f_eval = 1000, m_inf = - 1000, min_a = 1 / 10 ^ 16, a_start = 1,
         f_eval = 2, last_wrt = [1 / 2], last_g = [2], beta = 9 / 10, past_d = [- 1 / 2]\<rparr>"]
        hbg_direction_uses_displacement
          [of "\<lparr>wrt = [1 / 2], f_x = 1 / 2, eps = 1 / 10 ^ 6, max_iter = 1000, iter = 1,
       dim_n = 1, max_f_eval = 1000, m_inf = - 1000, min_a = 1 / 10 ^ 16, a_start = 1,
       f_eval = 2, last_wrt = [1 / 2], last_g = [2], beta = 9 / 10, past_d = [- 1 / 2]\<rparr>"
              "[2]" 2]
        hbg_direction_uses_displacement
          [of "\<lparr>wrt = [1 / 2], f_x = 1 / 2, eps = 1 / 10 ^ 6, max_iter = 1000, iter = 1,
       dim_n = 1, max_f_eval = 1000, m_inf = - 1000, min_a = 1 / 10 ^ 16, a_start = 1,
       f_eval = 2, last_wrt = [1 / 2], last_g = [2], beta = - 9 / 10, past_d = [- 1]\<rparr>"
              "[2]" 2]
  by (simp add: hbg_iteration_def hbg_direction_def Let_def quad_def vec_defs)

section \<open>The stochastic family: how a run ends\<close>

lemma rprop_iteration_Done:
  "rprop_iteration f args s = Done s' st \<Longrightarrow> st = Stopped \<and> max_iter s \<le> iter s"
  by (auto simp: rprop_iteration_def Let_def split: if_splits prod.splits)

lemma rprop_iteration_Next:
  "rprop_iteration f args s = Next s' \<Longrightarrow>
     iter s' = iter s + 1 \<and> max_iter s' = max_iter s \<and> iter s < max_iter s"
  by (auto simp: rprop_iteration_def Let_def split: if_splits prod.splits)

lemma rprop_iteration_budget:
  "max_iter s \<le> iter s \<Longrightarrow> \<exists>s'. rprop_iteration f args s = Done s' Stopped"
  by (simp add: rprop_iteration_def Let_def)

lemma rprop_iteration_cases:
  "(\<exists>s'. rprop_iteration f args s = Done s' Stopped \<and> max_iter s \<le> iter s)
   \<or> (\<exists>s'. rprop_iteration f args s = Next s' \<and> iter s < max_iter s)"
  by (auto simp: rprop_iteration_def Let_def split: if_splits prod.splits)

lemma rprop_loop_status:
  "rprop_loop f bs s = Inr (s', st) \<Longrightarrow> st = Stopped"
proof (induction bs arbitrary: s)
  case Nil
  then show ?case by simp
next
  case (Cons args rest)
  show ?case
  proof (cases "rprop_iteration f args s")
    case (Done s1 st1)
    with Cons.prems rprop_iteration_Done [OF Done] show ?thesis by simp
  next
    case (Next s1)
    with Cons.prems have "rprop_loop f rest s1 = Inr (s', st)" by simp
    then show ?thesis by (rule Cons.IH)
  qed
qed

lemma rprop_loop_returns:
  "nat (max_iter s - iter s) < length bs \<Longrightarrow> \<exists>s'. rprop_loop f bs s = Inr (s', Stopped)"
proof (induction bs arbitrary: s)
  case Nil
  then show ?case by simp
next
  case (Cons args rest)
  from rprop_iteration_cases [of f args s] show ?case
  proof (elim disjE exE conjE)
    fix s1 assume "rprop_iteration f args s = Done s1 Stopped"
    then show ?thesis by simp
  next
    fix s1 assume n: "rprop_iteration f args s = Next s1" and lt: "iter s < max_iter s"
    from rprop_iteration_Next [OF n] lt Cons.prems
    have "nat (max_iter s1 - iter s1) < length rest" by simp
    from Cons.IH [OF this] n show ?thesis by simp
  qed
qed

lemma adamax_iteration_Done:
  "adamax_iteration f args s = Done s' st \<Longrightarrow> st = Stopped \<and> max_iter s \<le> iter s"
  by (auto simp: adamax_iteration_def Let_def split: if_splits prod.splits)

lemma adamax_iteration_Next:
  "adamax_iteration f args s = Next s' \<Longrightarrow>
     iter s' = iter s + 1 \<and> max_iter s' = max_iter s \<and> iter s < max_iter s"
  by (auto simp: adamax_iteration_def Let_def split: if_splits prod.splits)

lemma adamax_iteration_cases:
  "(\<exists>s'. adamax_iteration f args s = Done s' Stopped \<and> max_iter s \<le> iter s)
   \<or> (\<exists>s'. adamax_iteration f args s = Next s' \<and> iter s < max_iter s)"
  by (auto simp: adamax_iteration_def Let_def split: if_splits prod.splits)

lemma adamax_loop_status:
  "adamax_loop f bs s = Inr (s', st) \<Longrightarrow> st = Stopped"
proof (induction bs arbitrary: s)
  case Nil
  then show ?case by simp
next
  case (Cons args rest)
  show ?case
  proof (cases "adamax_iteration f args s")
    case (Done s1 st1)
    with Cons.prems adamax_iteration_Done [OF Done] show ?thesis by simp
  next
    case (Next s1)
    with Cons.prems have "adamax_loop f rest s1 = Inr (s', st)" by simp
    then show ?thesis by (rule Cons.IH)
  qed
qed

lemma adamax_loop_returns:
  "nat (max_iter s - iter s) < length bs \<Longrightarrow> \<exists>s'. adamax_loop f bs s = Inr (s', Stopped)"
proof (induction bs arbitrary: s)
  case Nil
  then show ?case by simp
next
  case (Cons args rest)
  from adamax_iteration_cases [of f args s] show ?case
  proof (elim disjE exE conjE)
    fix s1 assume "adamax_iteration f args s = Done s1 Stopped"
    then show ?thesis by simp
  next
    fix s1 assume n: "adamax_iteration f args s = Next s1" and lt: "iter s < max_iter s"
    from adamax_iteration_Next [OF n] lt Cons.prems
    have "nat (max_iter s1 - iter s1) < length rest" by simp
    from Cons.IH [OF this] n show ?thesis by simp
  qed
qed

text \<open>
  C3, as stated, fails: neither \<^verbatim>\<open>RProp.minimize\<close> nor \<^verbatim>\<open>AdaMax.minimize\<close> tests the
  gradient norm. RProp with its default parameters on \<open>Q = diag(1,1)\<close>, \<open>q = (0,0)\<close>,
  started at the minimiser \<open>(0,0)\<close> with a budget of two iterations, has gradient norm
  \<open>0 \<le> eps\<close> from the start, stays at \<open>(0,0)\<close>, and returns \<open>stopped\<close>.
\<close>

theorem rprop_zero_gradient_run_stopped:
  "rprop_minimize
     \<lparr>batch_function = (\<lambda>y (u::unit). function_val (quad [[1, 0], [0, 1]] [0, 0]) y),
       batch_jacobian = (\<lambda>y (u::unit). jacobian (quad [[1, 0], [0, 1]] [0, 0]) y)\<rparr>
     [(), (), ()]
     (rprop_init
        \<lparr>wrt = [0, 0], f_x = 0, eps = 1 / 10 ^ 6, max_iter = 2, iter = 0,
          momentum_type = NoMomentum, momentum = 9 / 10, step = [0, 0]\<rparr>
        (1 / 10 ^ 6) (1 / 2) (12 / 10) 1)
     = Inr ([0, 0], 0, Stopped)
   \<and> norm2 (jacobian (quad [[1, 0], [0, 1]] [0, 0]) [0, 0]) \<le> 1 / 10 ^ 6"
  by (simp add: rprop_minimize_def rprop_init_def rprop_iteration_def rprop_changes_def
        rprop_change_def clip_def momentum_prologue_def momentum_epilogue_def
        momentum_optimizer.extend_def Let_def quad_def vec_defs)

text \<open>
  C3, amended. A run of \<^verbatim>\<open>RProp.minimize\<close> or \<^verbatim>\<open>AdaMax.minimize\<close> ends with status
  \<open>stopped\<close> when a pass finds \<open>iter \<ge> max_iter\<close>; this is the only status either
  method returns, whatever the gradient norm, and a run whose batch iterator yields
  more than \<open>max_iter - iter\<close> batches does return.
\<close>

theorem stochastic_runs_end_stopped:
  "(rprop_minimize f bs s = Inr (y, fy, st) \<longrightarrow> st = Stopped)
   \<and> (nat (max_iter s - iter s) < length bs \<longrightarrow>
        (\<exists>y fy. rprop_minimize f bs s = Inr (y, fy, Stopped)))
   \<and> (adamax_minimize f bs u = Inr (z, fz, st') \<longrightarrow> st' = Stopped)
   \<and> (nat (max_iter u - iter u) < length bs \<longrightarrow>
        (\<exists>z fz. adamax_minimize f bs u = Inr (z, fz, Stopped)))"
proof (intro conjI impI)
  assume "rprop_minimize f bs s = Inr (y, fy, st)"
  then show "st = Stopped"
    by (auto simp: rprop_minimize_def split: sum.splits dest: rprop_loop_status)
next
  assume "nat (max_iter s - iter s) < length bs"
  from rprop_loop_returns [OF this, of f]
  show "\<exists>y fy. rprop_minimize f bs s = Inr (y, fy, Stopped)"
    by (auto simp: rprop_minimize_def)
next
  assume "adamax_minimize f bs u = Inr (z, fz, st')"
  then show "st' = Stopped"
    by (auto simp: adamax_minimize_def split: sum.splits dest: adamax_loop_status)
next
  assume "nat (max_iter u - iter u) < length bs"
  from adamax_loop_returns [OF this, of f]
  show "\<exists>z fz. adamax_minimize f bs u = Inr (z, fz, Stopped)"
    by (auto simp: adamax_minimize_def)
qed

theorem stochastic_runs_end_stopped_witness:
  "nat (2 - 0) < length [(), (), ()]
   \<and> rprop_minimize
       \<lparr>batch_function = (\<lambda>y (u::unit). function_val (quad [[1, 0], [0, 1]] [0, 0]) y),
         batch_jacobian = (\<lambda>y (u::unit). jacobian (quad [[1, 0], [0, 1]] [0, 0]) y)\<rparr>
       [(), (), ()]
       \<lparr>wrt = [0, 0], f_x = 0, eps = 1 / 10 ^ 6, max_iter = 2, iter = 0,
         momentum_type = NoMomentum, momentum = 9 / 10, step = [0, 0],
         min_step = 1 / 10 ^ 6, step_shrink = 1 / 2, step_grow = 12 / 10, max_step = 1,
         self_jacobian = [0, 0], changes = [0, 0]\<rparr>
       = Inr ([0, 0], 0, Stopped)
   \<and> adamax_minimize
       \<lparr>batch_function = (\<lambda>y (u::unit). function_val (quad [[1, 0], [0, 1]] [0, 0]) y),
         batch_jacobian = (\<lambda>y (u::unit). jacobian (quad [[1, 0], [0, 1]] [0, 0]) y)\<rparr>
       [(), (), ()]
       \<lparr>wrt = [0, 0], f_x = 0, eps = 1 / 10 ^ 6, max_iter = 2, iter = 0,
         momentum_type = NoMomentum, momentum = 9 / 10, step = [0, 0],
         step_size = 2 / 1000, beta1 = 9 / 10, beta2 = 999 / 1000, offset = 1 / 10 ^ 8,
         est_mom1 = [0, 0], est_mom2 = [0, 0]\<rparr>
       = Inr ([0, 0], 0, Stopped)"
  using stochastic_runs_end_stopped
    [of "\<lparr>batch_function = (\<lambda>y (u::unit). function_val (quad [[1, 0], [0, 1]] [0, 0]) y),
         batch_jacobian = (\<lambda>y (u::unit). jacobian (quad [[1, 0], [0, 1]] [0, 0]) y)\<rparr>"
        "[(), (), ()]"
        "\<lparr>wrt = [0, 0], f_x = 0, eps = 1 / 10 ^ 6, max_iter = 2, iter = 0,
         momentum_type = NoMomentum, momentum = 9 / 10, step = [0, 0],
         min_step = 1 / 10 ^ 6, step_shrink = 1 / 2, step_grow = 12 / 10, max_step = 1,
         self_jacobian = [0, 0], changes = [0, 0]\<rparr>"
        "[0, 0]" 0 Stopped
        "\<lparr>wrt = [0, 0], f_x = 0, eps = 1 / 10 ^ 6, max_iter = 2, iter = 0,
         momentum_type = NoMomentum, momentum = 9 / 10, step = [0, 0],
         step_size = 2 / 1000, beta1 = 9 / 10, beta2 = 999 / 1000, offset = 1 / 10 ^ 8,
         est_mom1 = [0, 0], est_mom2 = [0, 0]\<rparr>"
        "[0, 0]" 0 Stopped]
  by (simp add: rprop_minimize_def rprop_iteration_def rprop_changes_def
        rprop_change_def clip_def momentum_prologue_def momentum_epilogue_def
        adamax_minimize_def adamax_iteration_def Let_def quad_def vec_defs)

section \<open>RProp: the step magnitudes\<close>

lemma clip_bounds: "lo \<le> hi \<Longrightarrow> lo \<le> clip c lo hi \<and> clip c lo hi \<le> hi"
  by (simp add: clip_def)

lemma clip_inside: "lo \<le> c \<Longrightarrow> c \<le> hi \<Longrightarrow> clip c lo hi = c"
  by (simp add: clip_def)

lemma rprop_change_sgn: "rprop_change s p c = rprop_change s (sgn p) c"
  by (simp add: rprop_change_def sgn_real_def)

lemma rprop_change_same_sign:
  "sgn y = sgn z \<Longrightarrow> rprop_change s (a * y) c = rprop_change s (a * z) c"
  by (subst (1 2) rprop_change_sgn) (simp add: sgn_mult)

lemma length_rprop_changes:
  "length (self_jacobian s) = length g \<Longrightarrow> length (changes s) = length g \<Longrightarrow>
     length (rprop_changes s g) = length g"
  by (simp add: rprop_changes_def vmul_def)

lemma rprop_changes_nth:
  "i < length g \<Longrightarrow> length (self_jacobian s) = length g \<Longrightarrow> length (changes s) = length g \<Longrightarrow>
     rprop_changes s g ! i = rprop_change s (self_jacobian s ! i * g ! i) (changes s ! i)"
  by (simp add: rprop_changes_def vmul_def)

lemma rprop_changes_sgn:
  assumes "map sgn g' = map sgn g"
  shows "rprop_changes s g' = rprop_changes s g"
proof -
  from assms have len: "length g' = length g"
    by (rule map_eq_imp_length_eq)
  have sg: "sgn (g' ! i) = sgn (g ! i)" if "i < length g" for i
  proof -
    from that len have "map sgn g' ! i = sgn (g' ! i)" "map sgn g ! i = sgn (g ! i)"
      by simp_all
    with assms show ?thesis by simp
  qed
  show ?thesis
    unfolding rprop_changes_def vmul_def
  proof (rule nth_equalityI)
    show "length (map2 (rprop_change s) (map2 (*) (self_jacobian s) g') (changes s))
          = length (map2 (rprop_change s) (map2 (*) (self_jacobian s) g) (changes s))"
      using len by simp
  next
    fix i
    assume "i < length (map2 (rprop_change s) (map2 (*) (self_jacobian s) g') (changes s))"
    then have i: "i < length g" "i < length g'" "i < length (self_jacobian s)"
        "i < length (changes s)"
      using len by simp_all
    then show "map2 (rprop_change s) (map2 (*) (self_jacobian s) g') (changes s) ! i
               = map2 (rprop_change s) (map2 (*) (self_jacobian s) g) (changes s) ! i"
      using rprop_change_same_sign [OF sg [of i], of s "self_jacobian s ! i" "changes s ! i"]
      by simp
  qed
qed

lemma rprop_iteration_go:
  "iter s < max_iter s \<Longrightarrow>
   rprop_iteration f args s =
     (let xg = snd (momentum_prologue s);
          g = batch_jacobian f xg args;
          ch = rprop_changes s g;
          step2 = vmul ch (map sgn g)
      in Next (s\<lparr>f_x := batch_function f (wrt s) args,
                 wrt := fst (momentum_epilogue s xg (fst (momentum_prologue s)) step2),
                 step := snd (momentum_epilogue s xg (fst (momentum_prologue s)) step2),
                 self_jacobian := g, changes := ch, iter := iter s + 1\<rparr>))"
  by (simp add: rprop_iteration_def Let_def case_prod_beta)

text \<open>
  C7, as stated, fails in two places. With standard momentum the point moves by the
  momentum term as well: from \<open>x = 4\<close> with \<open>momentum = 0.5\<close>, previous step \<open>1\<close> and
  magnitude \<open>0.625\<close> growing to \<open>0.75\<close>, the pass moves to \<open>4 - (0.5 + 0.75) = 2.75\<close>,
  not to \<open>4 - 0.75 = 3.25\<close>. And the constructor accepts \<open>min_step = 2 > max_step = 1\<close>,
  for which a sign flip from magnitude \<open>1\<close> gives \<open>clip(0.5, 2, 1) = 1\<close>, below
  \<open>min_step\<close>.
\<close>

theorem rprop_momentum_and_inverted_bounds:
  "rprop_iteration
     \<lparr>batch_function = (\<lambda>y (u::unit). function_val (quad [[1]] [0]) y),
       batch_jacobian = (\<lambda>y (u::unit). jacobian (quad [[1]] [0]) y)\<rparr>
     ()
     \<lparr>wrt = [4], f_x = 0, eps = 1 / 10 ^ 6, max_iter = 1000, iter = 1,
       momentum_type = Standard, momentum = 1 / 2, step = [1],
       min_step = 1 / 10 ^ 6, step_shrink = 1 / 2, step_grow = 12 / 10, max_step = 1,
       self_jacobian = [1], changes = [5 / 8]\<rparr>
   = Next
     \<lparr>wrt = [11 / 4], f_x = 8, eps = 1 / 10 ^ 6, max_iter = 1000, iter = 2,
       momentum_type = Standard, momentum = 1 / 2, step = [5 / 4],
       min_step = 1 / 10 ^ 6, step_shrink = 1 / 2, step_grow = 12 / 10, max_step = 1,
       self_jacobian = [4], changes = [3 / 4]\<rparr>
   \<and> (4 :: real) - 3 / 4 * sgn 4 = 13 / 4
   \<and> rprop_iteration
     \<lparr>batch_function = (\<lambda>y (u::unit). function_val (quad [[1]] [0]) y),
       batch_jacobian = (\<lambda>y (u::unit). jacobian (quad [[1]] [0]) y)\<rparr>
     ()
     \<lparr>wrt = [4], f_x = 0, eps = 1 / 10 ^ 6, max_iter = 1000, iter = 1,
       momentum_type = NoMomentum, momentum = 9 / 10, step = [0],
       min_step = 2, step_shrink = 1 / 2, step_grow = 12 / 10, max_step = 1,
       self_jacobian = [- 1], changes = [1]\<rparr>
   = Next
     \<lparr>wrt = [3], f_x = 8, eps = 1 / 10 ^ 6, max_iter = 1000, iter = 2,
       momentum_type = NoMomentum, momentum = 9 / 10, step = [1],
       min_step = 2, step_shrink = 1 / 2, step_grow = 12 / 10, max_step = 1,
       self_jacobian = [4], changes = [1]\<rparr>
   \<and> (1 :: real) < 2"
  by (simp add: rprop_iteration_def rprop_changes_def rprop_change_def clip_def
        momentum_prologue_def momentum_epilogue_def Let_def quad_def vec_defs)

text \<open>
  C7, amended. In every pass of \<^verbatim>\<open>RProp.minimize\<close> that goes on, with \<open>g\<close> the gradient
  taken in that pass and \<open>i\<close> a coordinate: the step magnitude is multiplied by
  \<open>step_grow\<close> when the product of the previous and the current gradient component is
  positive, by \<open>step_shrink\<close> when it is negative, and then clamped by
  \<^verbatim>\<open>np.clip(., min_step, max_step)\<close>. The gradient enters the update only through its
  signs: with momentum type \<open>none\<close> the coordinate moves by the magnitude times
  \<open>sign(g\<^sub>i)\<close>, with standard or Nesterov momentum by that plus \<open>momentum\<close> times the
  previous step, and an objective whose gradient has the same signs yields the same
  magnitudes, point and step. On a sign flip the magnitude is the old one times
  \<open>step_shrink\<close>, clamped: it is at least \<open>min_step\<close> provided \<open>min_step \<le> max_step\<close>,
  and exactly the old one times \<open>step_shrink\<close> when that lies within the bounds.
\<close>

theorem rprop_iteration_update:
  assumes "iter s < max_iter s"
    and "g = batch_jacobian f (snd (momentum_prologue s)) args"
    and "length (self_jacobian s) = length g"
    and "length (changes s) = length g"
    and "i < length g"
  shows "\<exists>s'. rprop_iteration f args s = Next s'
     \<and> self_jacobian s' = g
     \<and> changes s' ! i =
         clip (changes s ! i *
                 (if 0 < self_jacobian s ! i * g ! i then step_grow s
                  else if self_jacobian s ! i * g ! i < 0 then step_shrink s
                  else 1))
              (min_step s) (max_step s)
     \<and> (momentum_type s = NoMomentum \<and> length (wrt s) = length g \<longrightarrow>
          wrt s' ! i = wrt s ! i - changes s' ! i * sgn (g ! i))
     \<and> (momentum_type s \<noteq> NoMomentum \<and> length (wrt s) = length g
          \<and> length (step s) = length g \<longrightarrow>
          wrt s' ! i = wrt s ! i - (momentum s * step s ! i + changes s' ! i * sgn (g ! i))
          \<and> step s' ! i = momentum s * step s ! i + changes s' ! i * sgn (g ! i))
     \<and> (\<forall>f'. map sgn (batch_jacobian f' (snd (momentum_prologue s)) args) = map sgn g \<longrightarrow>
          (\<exists>s''. rprop_iteration f' args s = Next s''
             \<and> changes s'' = changes s' \<and> wrt s'' = wrt s' \<and> step s'' = step s'))
     \<and> (self_jacobian s ! i * g ! i < 0 \<longrightarrow>
          changes s' ! i = clip (changes s ! i * step_shrink s) (min_step s) (max_step s)
          \<and> (min_step s \<le> max_step s \<longrightarrow> min_step s \<le> changes s' ! i)
          \<and> (min_step s \<le> changes s ! i * step_shrink s
               \<and> changes s ! i * step_shrink s \<le> max_step s \<longrightarrow>
             changes s' ! i = changes s ! i * step_shrink s))"
proof -
  let ?xg = "snd (momentum_prologue s)"
  let ?ch = "rprop_changes s g"
  let ?step2 = "vmul ?ch (map sgn g)"
  let ?s' = "s\<lparr>f_x := batch_function f (wrt s) args,
                wrt := fst (momentum_epilogue s ?xg (fst (momentum_prologue s)) ?step2),
                step := snd (momentum_epilogue s ?xg (fst (momentum_prologue s)) ?step2),
                self_jacobian := g, changes := ?ch, iter := iter s + 1\<rparr>"
  have run: "rprop_iteration f args s = Next ?s'"
    using assms(1,2) by (simp add: rprop_iteration_go Let_def)
  have chi: "?ch ! i = rprop_change s (self_jacobian s ! i * g ! i) (changes s ! i)"
    by (rule rprop_changes_nth [OF assms(5) assms(3) assms(4)])
  have len: "length ?ch = length g"
    by (rule length_rprop_changes [OF assms(3) assms(4)])
  have c1: "changes ?s' ! i =
         clip (changes s ! i *
                 (if 0 < self_jacobian s ! i * g ! i then step_grow s
                  else if self_jacobian s ! i * g ! i < 0 then step_shrink s
                  else 1))
              (min_step s) (max_step s)"
    using chi by (simp add: rprop_change_def)
  have c2: "wrt ?s' ! i = wrt s ! i - changes ?s' ! i * sgn (g ! i)"
    if "momentum_type s = NoMomentum \<and> length (wrt s) = length g"
    using that assms(5) len
    by (simp add: momentum_epilogue_def momentum_prologue_def vsub_def vmul_def)
  have c2b: "wrt ?s' ! i = wrt s ! i - (momentum s * step s ! i + changes ?s' ! i * sgn (g ! i))
             \<and> step ?s' ! i = momentum s * step s ! i + changes ?s' ! i * sgn (g ! i)"
    if "momentum_type s \<noteq> NoMomentum \<and> length (wrt s) = length g
          \<and> length (step s) = length g"
    using that assms(5) len
    by (cases "momentum_type s")
       (simp_all add: momentum_epilogue_def momentum_prologue_def vsub_def vadd_def vmul_def
          smul_def)
  have c3: "\<exists>s''. rprop_iteration f' args s = Next s''
             \<and> changes s'' = changes ?s' \<and> wrt s'' = wrt ?s' \<and> step s'' = step ?s'"
    if "map sgn (batch_jacobian f' ?xg args) = map sgn g" for f'
    using that assms(1) rprop_changes_sgn [OF that, of s]
    by (simp add: rprop_iteration_go Let_def)
  have c4: "changes ?s' ! i = clip (changes s ! i * step_shrink s) (min_step s) (max_step s)"
    if "self_jacobian s ! i * g ! i < 0"
    using that c1 by simp
  have c5: "min_step s \<le> changes ?s' ! i" if "min_step s \<le> max_step s"
    using that c1 clip_bounds by simp
  have c6: "changes ?s' ! i = changes s ! i * step_shrink s"
    if "self_jacobian s ! i * g ! i < 0"
      and "min_step s \<le> changes s ! i * step_shrink s
           \<and> changes s ! i * step_shrink s \<le> max_step s"
    using c4 [OF that(1)] that(2) by (simp add: clip_inside)
  show ?thesis
    apply (rule exI, intro conjI impI allI)
            apply (rule run)
           apply simp
          apply (rule c1)
         apply (erule c2)
        apply (erule c2b [THEN conjunct1])
       apply (erule c2b [THEN conjunct2])
        apply (erule c3)
       apply (erule c4)
      apply (erule c5)
     apply (rule c6; assumption)
    done
qed

theorem rprop_iteration_update_witness:
  "iter \<lparr>wrt = [1, 1], f_x = 0, eps = 1 / 10 ^ 6, max_iter = 1000, iter = 1,
         momentum_type = NoMomentum, momentum = 9 / 10, step = [0, 0],
         min_step = 1 / 10 ^ 6, step_shrink = 1 / 2, step_grow = 12 / 10, max_step = 1,
         self_jacobian = [1, - 1], changes = [1 / 10, 1 / 10]\<rparr> < (1000 :: int)
   \<and> rprop_iteration
       \<lparr>batch_function = (\<lambda>y (u::unit). function_val (quad [[1, 0], [0, 1]] [0, 0]) y),
         batch_jacobian = (\<lambda>y (u::unit). jacobian (quad [[1, 0], [0, 1]] [0, 0]) y)\<rparr>
       ()
       \<lparr>wrt = [1, 1], f_x = 0, eps = 1 / 10 ^ 6, max_iter = 1000, iter = 1,
         momentum_type = NoMomentum, momentum = 9 / 10, step = [0, 0],
         min_step = 1 / 10 ^ 6, step_shrink = 1 / 2, step_grow = 12 / 10, max_step = 1,
         self_jacobian = [1, - 1], changes = [1 / 10, 1 / 10]\<rparr>
     = Next
       \<lparr>wrt = [22 / 25, 19 / 20], f_x = 1, eps = 1 / 10 ^ 6, max_iter = 1000, iter = 2,
         momentum_type = NoMomentum, momentum = 9 / 10, step = [3 / 25, 1 / 20],
         min_step = 1 / 10 ^ 6, step_shrink = 1 / 2, step_grow = 12 / 10, max_step = 1,
         self_jacobian = [1, 1], changes = [3 / 25, 1 / 20]\<rparr>
   \<and> (1 / 20 :: real) = 1 / 10 * (1 / 2)
   \<and> rprop_iteration
       \<lparr>batch_function = (\<lambda>y (u::unit). function_val (quad [[1]] [0]) y),
         batch_jacobian = (\<lambda>y (u::unit). jacobian (quad [[1]] [0]) y)\<rparr>
       ()
       \<lparr>wrt = [4], f_x = 0, eps = 1 / 10 ^ 6, max_iter = 1000, iter = 1,
         momentum_type = Standard, momentum = 1 / 2, step = [1],
         min_step = 1 / 10 ^ 6, step_shrink = 1 / 2, step_grow = 12 / 10, max_step = 1,
         self_jacobian = [1], changes = [5 / 8]\<rparr>
     = Next
       \<lparr>wrt = [11 / 4], f_x = 8, eps = 1 / 10 ^ 6, max_iter = 1000, iter = 2,
         momentum_type = Standard, momentum = 1 / 2, step = [5 / 4],
         min_step = 1 / 10 ^ 6, step_shrink = 1 / 2, step_grow = 12 / 10, max_step = 1,
         self_jacobian = [4], changes = [3 / 4]\<rparr>
   \<and> (11 / 4 :: real) = 4 - (1 / 2 * 1 + 3 / 4 * sgn 4)"
  using rprop_iteration_update
    [of "\<lparr>wrt = [4], f_x = 0, eps = 1 / 10 ^ 6, max_iter = 1000, iter = 1,
         momentum_type = Standard, momentum = 1 / 2, step = [1],
         min_step = 1 / 10 ^ 6, step_shrink = 1 / 2, step_grow = 12 / 10, max_step = 1,
         self_jacobian = [1], changes = [5 / 8]\<rparr>"
        "[4]"
        "\<lparr>batch_function = (\<lambda>y (u::unit). function_val (quad [[1]] [0]) y),
         batch_jacobian = (\<lambda>y (u::unit). jacobian (quad [[1]] [0]) y)\<rparr>"
        "()" 0]
    rprop_iteration_update
    [of "\<lparr>wrt = [1, 1], f_x = 0, eps = 1 / 10 ^ 6, max_iter = 1000, iter = 1,
         momentum_type = NoMomentum, momentum = 9 / 10, step = [0, 0],
         min_step = 1 / 10 ^ 6, step_shrink = 1 / 2, step_grow = 12 / 10, max_step = 1,
         self_jacobian = [1, - 1], changes = [1 / 10, 1 / 10]\<rparr>"
        "[1, 1]"
        "\<lparr>batch_function = (\<lambda>y (u::unit). function_val (quad [[1, 0], [0, 1]] [0, 0]) y),
         batch_jacobian = (\<lambda>y (u::unit). jacobian (quad [[1, 0], [0, 1]] [0, 0]) y)\<rparr>"
        "()" 1]
  by (simp add: rprop_iteration_def rprop_changes_def rprop_change_def clip_def
        momentum_prologue_def momentum_epilogue_def Let_def quad_def vec_defs)

section \<open>RProp: the magnitudes stay within their bounds\<close>

lemma smul_zeros: "smul m (replicate n 0) = replicate n 0"
  by (simp add: smul_def)

lemma vsub_zeros: "length y = n \<Longrightarrow> vsub y (replicate n 0) = y"
  by (induction y arbitrary: n) (auto simp: vsub_def)

lemma vadd_zeros: "length y = n \<Longrightarrow> vadd (replicate n 0) y = y"
  by (induction y arbitrary: n) (auto simp: vadd_def)

lemma rprop_changes_in_bounds:
  assumes "min_step s \<le> max_step s" and "c \<in> set (rprop_changes s g)"
  shows "min_step s \<le> c \<and> c \<le> max_step s"
proof -
  from assms(2) obtain p c0 where "c = rprop_change s p c0"
    by (auto simp: rprop_changes_def)
  with assms(1) show ?thesis
    by (simp add: rprop_change_def clip_bounds)
qed

lemma rprop_init_fields:
  "wrt (rprop_init base lo sh gr hi) = wrt base"
  "iter (rprop_init base lo sh gr hi) = iter base"
  "max_iter (rprop_init base lo sh gr hi) = max_iter base"
  "momentum_type (rprop_init base lo sh gr hi) = momentum_type base"
  "momentum (rprop_init base lo sh gr hi) = momentum base"
  "step (rprop_init base lo sh gr hi) = step base"
  "min_step (rprop_init base lo sh gr hi) = lo"
  "max_step (rprop_init base lo sh gr hi) = hi"
  "step_shrink (rprop_init base lo sh gr hi) = sh"
  "step_grow (rprop_init base lo sh gr hi) = gr"
  "self_jacobian (rprop_init base lo sh gr hi) = replicate (length (wrt base)) 0"
  "changes (rprop_init base lo sh gr hi) = replicate (length (wrt base)) 0"
  by (cases base; simp add: rprop_init_def momentum_optimizer.extend_def)+

lemma rprop_first_changes:
  assumes "0 \<le> lo" and "lo \<le> hi" and "length g = length (wrt base)"
  shows "rprop_changes (rprop_init base lo sh gr hi) g = replicate (length (wrt base)) lo"
proof (rule nth_equalityI)
  show "length (rprop_changes (rprop_init base lo sh gr hi) g)
        = length (replicate (length (wrt base)) lo)"
    using assms(3) by (simp add: rprop_changes_def vmul_def rprop_init_fields)
next
  fix i
  assume "i < length (rprop_changes (rprop_init base lo sh gr hi) g)"
  then have i: "i < length (wrt base)"
    using assms(3) by (simp add: rprop_changes_def vmul_def rprop_init_fields)
  with assms show "rprop_changes (rprop_init base lo sh gr hi) g ! i
                   = replicate (length (wrt base)) lo ! i"
    by (simp add: rprop_changes_def vmul_def rprop_init_fields rprop_change_def clip_def)
qed

lemma rprop_first_point:
  assumes "momentum_type base = NoMomentum \<or> step base = replicate (length (wrt base)) 0"
    and "length step2 = length (wrt base)"
  shows "snd (momentum_prologue (rprop_init base lo sh gr hi)) = wrt base"
    and "fst (momentum_epilogue (rprop_init base lo sh gr hi) (wrt base)
               (fst (momentum_prologue (rprop_init base lo sh gr hi))) step2)
         = vsub (wrt base) step2"
  using assms
  by (cases "momentum_type base";
      auto simp: momentum_prologue_def momentum_epilogue_def rprop_init_fields
                 smul_zeros vsub_zeros vadd_zeros)+

text \<open>
  C10, as stated, fails for parameters that \<^verbatim>\<open>RProp.__init__\<close> accepts (it stores them
  unchecked). With \<open>min_step = 2 > max_step = 1\<close> the first update from \<open>(1,-2)\<close> leaves
  \<open>changes = (1,1)\<close>, below \<open>min_step\<close>, and moves each coordinate by \<open>1\<close>. With
  \<open>min_step = -1\<close> the first update leaves \<open>changes = (0,0)\<close> and does not move the
  point, although both gradient components are non-zero.
\<close>

theorem rprop_first_update_unchecked_bounds:
  "rprop_iteration
     \<lparr>batch_function = (\<lambda>y (u::unit). function_val (quad [[1, 0], [0, 1]] [0, 0]) y),
       batch_jacobian = (\<lambda>y (u::unit). jacobian (quad [[1, 0], [0, 1]] [0, 0]) y)\<rparr>
     ()
     (rprop_init
        \<lparr>wrt = [1, - 2], f_x = 0, eps = 1 / 10 ^ 6, max_iter = 1000, iter = 0,
          momentum_type = NoMomentum, momentum = 9 / 10, step = [0, 0]\<rparr>
        2 (1 / 2) (12 / 10) 1)
   = Next
     \<lparr>wrt = [0, - 1], f_x = 5 / 2, eps = 1 / 10 ^ 6, max_iter = 1000, iter = 1,
       momentum_type = NoMomentum, momentum = 9 / 10, step = [1, - 1],
       min_step = 2, step_shrink = 1 / 2, step_grow = 12 / 10, max_step = 1,
       self_jacobian = [1, - 2], changes = [1, 1]\<rparr>
   \<and> (1 :: real) < 2
   \<and> rprop_iteration
     \<lparr>batch_function = (\<lambda>y (u::unit). function_val (quad [[1, 0], [0, 1]] [0, 0]) y),
       batch_jacobian = (\<lambda>y (u::unit). jacobian (quad [[1, 0], [0, 1]] [0, 0]) y)\<rparr>
     ()
     (rprop_init
        \<lparr>wrt = [1, - 2], f_x = 0, eps = 1 / 10 ^ 6, max_iter = 1000, iter = 0,
          momentum_type = NoMomentum, momentum = 9 / 10, step = [0, 0]\<rparr>
        (- 1) (1 / 2) (12 / 10) 1)
   = Next
     \<lparr>wrt = [1, - 2], f_x = 5 / 2, eps = 1 / 10 ^ 6, max_iter = 1000, iter = 1,
       momentum_type = NoMomentum, momentum = 9 / 10, step = [0, 0],
       min_step = - 1, step_shrink = 1 / 2, step_grow = 12 / 10, max_step = 1,
       self_jacobian = [1, - 2], changes = [0, 0]\<rparr>
   \<and> jacobian (quad [[1, 0], [0, 1]] [0, 0]) [1, - 2] = [1, - 2]"
  by (simp add: rprop_init_def momentum_optimizer.extend_def rprop_iteration_def
        rprop_changes_def rprop_change_def clip_def momentum_prologue_def
        momentum_epilogue_def Let_def quad_def vec_defs)

text \<open>
  C10, amended. \<^verbatim>\<open>RProp.__init__\<close> sets \<^verbatim>\<open>changes\<close> to zeros. Provided
  \<open>min_step \<le> max_step\<close>, after every update each coordinate of \<^verbatim>\<open>changes\<close> lies in
  \<open>[min_step, max_step]\<close> (the bounds themselves unchanged). Provided
  \<open>0 \<le> min_step \<le> max_step\<close>, on the first update of a freshly constructed optimizer
  (momentum type \<open>none\<close>, or a zero initial step) each coordinate with a non-zero
  gradient has magnitude \<open>min_step\<close> and moves by exactly \<open>min_step\<close> against the sign
  of its gradient component.
\<close>

theorem rprop_changes_bounded_and_first_step:
  "changes (rprop_init base lo sh gr hi) = replicate (length (wrt base)) 0
   \<and> (min_step s \<le> max_step s \<and> rprop_iteration f args s = Next s' \<longrightarrow>
        (\<forall>c \<in> set (changes s'). min_step s \<le> c \<and> c \<le> max_step s)
        \<and> min_step s' = min_step s \<and> max_step s' = max_step s)
   \<and> (0 \<le> lo \<and> lo \<le> hi \<and> iter base < max_iter base
        \<and> (momentum_type base = NoMomentum \<or> step base = replicate (length (wrt base)) 0)
        \<and> length (batch_jacobian f (wrt base) args) = length (wrt base)
        \<and> i < length (wrt base) \<and> batch_jacobian f (wrt base) args ! i \<noteq> 0 \<longrightarrow>
      (\<exists>s1. rprop_iteration f args (rprop_init base lo sh gr hi) = Next s1
         \<and> changes s1 ! i = lo
         \<and> wrt s1 ! i = wrt base ! i - lo * sgn (batch_jacobian f (wrt base) args ! i)
         \<and> \<bar>wrt s1 ! i - wrt base ! i\<bar> = lo))"
proof (intro conjI impI)
  show "changes (rprop_init base lo sh gr hi) = replicate (length (wrt base)) 0"
    by (rule rprop_init_fields)
next
  assume h: "min_step s \<le> max_step s \<and> rprop_iteration f args s = Next s'"
  then have n: "rprop_iteration f args s = Next s'" by simp
  from rprop_iteration_Next [OF n] have lt: "iter s < max_iter s" by simp
  let ?g = "batch_jacobian f (snd (momentum_prologue s)) args"
  from n have s': "s' = s\<lparr>f_x := batch_function f (wrt s) args,
         wrt := fst (momentum_epilogue s (snd (momentum_prologue s)) (fst (momentum_prologue s))
                      (vmul (rprop_changes s ?g) (map sgn ?g))),
         step := snd (momentum_epilogue s (snd (momentum_prologue s)) (fst (momentum_prologue s))
                      (vmul (rprop_changes s ?g) (map sgn ?g))),
         self_jacobian := ?g, changes := rprop_changes s ?g, iter := iter s + 1\<rparr>"
    unfolding rprop_iteration_go [OF lt] Let_def by simp
  have ch: "changes s' = rprop_changes s ?g"
    unfolding s' by simp
  have lo: "min_step s' = min_step s"
    unfolding s' by simp
  have hi: "max_step s' = max_step s"
    unfolding s' by simp
  show "\<forall>c \<in> set (changes s'). min_step s \<le> c \<and> c \<le> max_step s"
  proof
    fix c
    assume "c \<in> set (changes s')"
    then have "c \<in> set (rprop_changes s ?g)" unfolding ch .
    moreover from h have "min_step s \<le> max_step s" by simp
    ultimately show "min_step s \<le> c \<and> c \<le> max_step s"
      by (rule rprop_changes_in_bounds [rotated])
  qed
  from lo show "min_step s' = min_step s" .
  from hi show "max_step s' = max_step s" .
next
  let ?s0 = "rprop_init base lo sh gr hi"
  let ?g = "batch_jacobian f (wrt base) args"
  let ?step2 = "vmul (replicate (length (wrt base)) lo) (map sgn ?g)"
  assume h: "0 \<le> lo \<and> lo \<le> hi \<and> iter base < max_iter base
        \<and> (momentum_type base = NoMomentum \<or> step base = replicate (length (wrt base)) 0)
        \<and> length ?g = length (wrt base)
        \<and> i < length (wrt base) \<and> ?g ! i \<noteq> 0"
  then have mom: "momentum_type base = NoMomentum \<or> step base = replicate (length (wrt base)) 0"
    and len: "length ?g = length (wrt base)" and i: "i < length (wrt base)"
    and nz: "?g ! i \<noteq> 0" and lo: "0 \<le> lo" and lohi: "lo \<le> hi"
    by simp_all
  have len2: "length ?step2 = length (wrt base)"
    using len by (simp add: vmul_def)
  have xg: "snd (momentum_prologue ?s0) = wrt base"
    by (rule rprop_first_point(1) [OF mom len2])
  have xn: "fst (momentum_epilogue ?s0 (wrt base) (fst (momentum_prologue ?s0)) ?step2)
            = vsub (wrt base) ?step2"
    by (rule rprop_first_point(2) [OF mom len2])
  have ch: "rprop_changes ?s0 ?g = replicate (length (wrt base)) lo"
    by (rule rprop_first_changes [OF lo lohi len])
  from h have lt: "iter ?s0 < max_iter ?s0"
    by (simp add: rprop_init_fields)
  let ?s1 = "?s0\<lparr>f_x := batch_function f (wrt ?s0) args,
                 wrt := vsub (wrt base) ?step2,
                 step := snd (momentum_epilogue ?s0 (wrt base) (fst (momentum_prologue ?s0)) ?step2),
                 self_jacobian := ?g, changes := replicate (length (wrt base)) lo,
                 iter := iter ?s0 + 1\<rparr>"
  have run: "rprop_iteration f args ?s0 = Next ?s1"
    by (simp add: rprop_iteration_go [OF lt] Let_def xg xn ch)
  have c: "changes ?s1 ! i = lo"
    using i by simp
  have w: "wrt ?s1 ! i = wrt base ! i - lo * sgn (?g ! i)"
    using i len by (simp add: vsub_def vmul_def)
  have "\<bar>wrt ?s1 ! i - wrt base ! i\<bar> = \<bar>lo\<bar> * \<bar>sgn (?g ! i)\<bar>"
    unfolding w by (simp add: abs_mult)
  with nz lo have a: "\<bar>wrt ?s1 ! i - wrt base ! i\<bar> = lo"
    by (simp add: sgn_real_def)
  show "\<exists>s1. rprop_iteration f args ?s0 = Next s1
         \<and> changes s1 ! i = lo
         \<and> wrt s1 ! i = wrt base ! i - lo * sgn (?g ! i)
         \<and> \<bar>wrt s1 ! i - wrt base ! i\<bar> = lo"
    apply (rule exI, intro conjI)
       apply (rule run)
      apply (rule c)
     apply (rule w)
    apply (rule a)
    done
qed

theorem rprop_changes_bounded_and_first_step_witness:
  "changes (rprop_init
        \<lparr>wrt = [1, - 2], f_x = 0, eps = 1 / 10 ^ 6, max_iter = 1000, iter = 0,
          momentum_type = NoMomentum, momentum = 9 / 10, step = [0, 0]\<rparr>
        (1 / 10 ^ 6) (1 / 2) (12 / 10) 1) = [0, 0]
   \<and> rprop_iteration
         \<lparr>batch_function = (\<lambda>y (u::unit). function_val (quad [[1, 0], [0, 1]] [0, 0]) y),
           batch_jacobian = (\<lambda>y (u::unit). jacobian (quad [[1, 0], [0, 1]] [0, 0]) y)\<rparr>
         ()
         \<lparr>wrt = [1, 1], f_x = 0, eps = 1 / 10 ^ 6, max_iter = 1000, iter = 1,
           momentum_type = NoMomentum, momentum = 9 / 10, step = [0, 0],
           min_step = 1 / 10 ^ 6, step_shrink = 1 / 2, step_grow = 12 / 10, max_step = 1,
           self_jacobian = [1, - 1], changes = [1 / 10, 1 / 10]\<rparr>
       = Next
         \<lparr>wrt = [22 / 25, 19 / 20], f_x = 1, eps = 1 / 10 ^ 6, max_iter = 1000, iter = 2,
           momentum_type = NoMomentum, momentum = 9 / 10, step = [3 / 25, 1 / 20],
           min_step = 1 / 10 ^ 6, step_shrink = 1 / 2, step_grow = 12 / 10, max_step = 1,
           self_jacobian = [1, 1], changes = [3 / 25, 1 / 20]\<rparr>
   \<and> (1 / 10 ^ 6 :: real) \<le> 3 / 25 \<and> (3 / 25 :: real) \<le> 1
   \<and> (1 / 10 ^ 6 :: real) \<le> 1 / 20 \<and> (1 / 20 :: real) \<le> 1
   \<and> (\<exists>s1. rprop_iteration
         \<lparr>batch_function = (\<lambda>y (u::unit). function_val (quad [[1, 0], [0, 1]] [0, 0]) y),
           batch_jacobian = (\<lambda>y (u::unit). jacobian (quad [[1, 0], [0, 1]] [0, 0]) y)\<rparr>
         ()
         (rprop_init
            \<lparr>wrt = [1, - 2], f_x = 0, eps = 1 / 10 ^ 6, max_iter = 1000, iter = 0,
              momentum_type = NoMomentum, momentum = 9 / 10, step = [0, 0]\<rparr>
            (1 / 10 ^ 6) (1 / 2) (12 / 10) 1) = Next s1
       \<and> changes s1 ! 1 = 1 / 10 ^ 6
       \<and> wrt s1 ! 1 = - 2 + 1 / 10 ^ 6)"
  using rprop_changes_bounded_and_first_step
    [of "\<lparr>wrt = [1, - 2], f_x = 0, eps = 1 / 10 ^ 6, max_iter = 1000, iter = 0,
          momentum_type = NoMomentum, momentum = 9 / 10, step = [0, 0]\<rparr>"
        "1 / 10 ^ 6" "1 / 2" "12 / 10" 1
        "\<lparr>wrt = [1, 1], f_x = 0, eps = 1 / 10 ^ 6, max_iter = 1000, iter = 1,
         momentum_type = NoMomentum, momentum = 9 / 10, step = [0, 0],
         min_step = 1 / 10 ^ 6, step_shrink = 1 / 2, step_grow = 12 / 10, max_step = 1,
         self_jacobian = [1, - 1], changes = [1 / 10, 1 / 10]\<rparr>"
        "\<lparr>batch_function = (\<lambda>y (u::unit). function_val (quad [[1, 0], [0, 1]] [0, 0]) y),
         batch_jacobian = (\<lambda>y (u::unit). jacobian (quad [[1, 0], [0, 1]] [0, 0]) y)\<rparr>"
        "()"
        "\<lparr>wrt = [22 / 25, 19 / 20], f_x = 1, eps = 1 / 10 ^ 6, max_iter = 1000, iter = 2,
         momentum_type = NoMomentum, momentum = 9 / 10, step = [3 / 25, 1 / 20],
         min_step = 1 / 10 ^ 6, step_shrink = 1 / 2, step_grow = 12 / 10, max_step = 1,
         self_jacobian = [1, 1], changes = [3 / 25, 1 / 20]\<rparr>"
        1]
  by (simp add: rprop_init_fields rprop_iteration_def rprop_changes_def rprop_change_def
        clip_def momentum_prologue_def momentum_epilogue_def Let_def quad_def vec_defs)

section \<open>Validation of the hyper-parameters\<close>








end
